theory Spec2Isabelle
  imports Complex_Main "HOL-Library.AList"
begin

section \<open>Python values\<close>

text \<open>
  A shallow embedding of \<^verbatim>\<open>custom_components/srgssr_weather/weather.py\<close>.

  The values that travel through the module are decoded JSON documents and the
  dictionaries built from them, so one datatype of Python values serves for both.
  A \<^verbatim>\<open>dict\<close> is an association list in insertion order (keys are looked up with
  \<open>map_of\<close> and stored with \<open>AList.update\<close>, which overwrites in place or appends, as
  a Python dict does). A Python \<^verbatim>\<open>float\<close> is a finite IEEE double, held as the
  rational number it denotes; what a float operation computes is rounded to the
  nearest double by \<open>fl\<close> below. Infinities and NaN are outside the model. Python
  integers are unbounded, hence \<open>int\<close>.
\<close>

datatype json =
    JNull
  | JBool bool
  | JInt int
  | JFloat rat
  | JStr string
  | JList "json list"
  | JObj "(string \<times> json) list"

text \<open>The exceptions the module can raise or let through.\<close>

datatype exn =
    KeyError
  | ValueError
  | TypeError
  | IndexError
  | AttributeError
  | OverflowError
  | ClientError
  | ClientResponseError
  | CancelledError

definition try_bind :: "exn + 'a \<Rightarrow> ('a \<Rightarrow> exn + 'b) \<Rightarrow> exn + 'b" where
  "try_bind m f = (case m of Inl x \<Rightarrow> Inl x | Inr a \<Rightarrow> f a)"

text \<open>
  An aware or naive \<^verbatim>\<open>datetime\<close>: the wall-clock reading and the offset from UTC,
  both in microseconds, the offset absent for a naive value.
\<close>

record datetime =
  wall :: int
  utcoffset :: "int option"

text \<open>
  The standard-library functions the module calls on strings are parameters of the
  model; every theorem holds for whatever they compute.
  \<^item> \<open>str_to_float\<close>, \<open>str_to_int\<close>: \<^verbatim>\<open>float(s)\<close> and \<^verbatim>\<open>int(s)\<close> on a string, \<open>None\<close>
    where Python raises \<^verbatim>\<open>ValueError\<close>;
  \<^item> \<open>fromisoformat\<close>, \<open>isoformat\<close>: \<^verbatim>\<open>datetime.fromisoformat\<close> and
    \<^verbatim>\<open>datetime.isoformat\<close>;
  \<^item> \<open>fromtimestamp\<close>: the exception \<^verbatim>\<open>datetime.fromtimestamp\<close> raises, if any;
  \<^item> \<open>repr\<close>: how a value that is not a string is formatted inside an f-string;
  \<^item> \<open>b64encode\<close>: \<^verbatim>\<open>base64.b64encode\<close>.
\<close>

record pylib =
  str_to_float :: "string \<Rightarrow> rat option"
  str_to_int :: "string \<Rightarrow> int option"
  fromisoformat :: "string \<Rightarrow> datetime option"
  isoformat :: "datetime \<Rightarrow> string"
  fromtimestamp :: "rat \<Rightarrow> exn option"
  repr :: "json \<Rightarrow> string"
  b64encode :: "string \<Rightarrow> string"

text \<open>\<^verbatim>\<open>d[k]\<close> on a dict.\<close>

definition dict_get :: "(string \<times> 'v) list \<Rightarrow> string \<Rightarrow> exn + 'v" where
  "dict_get kvs k = (case map_of kvs k of None \<Rightarrow> Inl KeyError | Some v \<Rightarrow> Inr v)"

text \<open>\<^verbatim>\<open>d[k]\<close> with a string key on any value: only a dict supports it.\<close>

fun getitem :: "json \<Rightarrow> string \<Rightarrow> exn + json" where
  "getitem (JObj kvs) k = dict_get kvs k"
| "getitem _ k = Inl TypeError"

text \<open>\<^verbatim>\<open>value.update(existing)\<close>.\<close>

definition dict_update :: "(string \<times> 'v) list \<Rightarrow> (string \<times> 'v) list \<Rightarrow> (string \<times> 'v) list" where
  "dict_update value existing = fold (\<lambda>kv. AList.update (fst kv) (snd kv)) existing value"

text \<open>\<^verbatim>\<open>sub in s\<close> on strings.\<close>

fun startswith :: "string \<Rightarrow> string \<Rightarrow> bool" where
  "startswith s [] = True"
| "startswith [] (p # ps) = False"
| "startswith (c # cs) (p # ps) = (c = p \<and> startswith cs ps)"

fun str_contains :: "string \<Rightarrow> string \<Rightarrow> bool" where
  "str_contains [] sub = (sub = [])"
| "str_contains (c # cs) sub = (startswith (c # cs) sub \<or> str_contains cs sub)"

text \<open>\<^verbatim>\<open>xs[-1]\<close>.\<close>

fun getitem_last :: "json \<Rightarrow> exn + json" where
  "getitem_last (JList xs) = (if xs = [] then Inl IndexError else Inr (last xs))"
| "getitem_last (JStr s) = (if s = [] then Inl IndexError else Inr (JStr [last s]))"
| "getitem_last (JObj kvs) = Inl KeyError"
| "getitem_last _ = Inl TypeError"

text \<open>The items a \<^verbatim>\<open>for\<close> loop sees: a dict yields its keys, a string its characters.\<close>

fun py_iter :: "json \<Rightarrow> exn + json list" where
  "py_iter (JList xs) = Inr xs"
| "py_iter (JStr s) = Inr (map (\<lambda>c. JStr [c]) s)"
| "py_iter (JObj kvs) = Inr (map (\<lambda>kv. JStr (fst kv)) kvs)"
| "py_iter _ = Inl TypeError"

text \<open>\<^verbatim>\<open>int(x)\<close> on a float truncates towards zero.\<close>

definition trunc :: "rat \<Rightarrow> int" where
  "trunc r = (if 0 \<le> r then \<lfloor>r\<rfloor> else \<lceil>r\<rceil>)"

section \<open>Double arithmetic\<close>

text \<open>
  Python 3's one-argument \<^verbatim>\<open>round\<close>: to the nearest integer, an exact half going to
  the even neighbour.
\<close>

definition py_round :: "rat \<Rightarrow> int" where
  "py_round q =
     (let f = \<lfloor>q\<rfloor>; r = q - of_int f
      in if r < 1 / 2 then f
         else if 1 / 2 < r then f + 1
         else if even f then f else f + 1)"

text \<open>The number of binary digits of a positive integer.\<close>

function bit_length :: "int \<Rightarrow> nat" where
  "bit_length n = (if n \<le> 0 then 0 else Suc (bit_length (n div 2)))"
  by pat_completeness auto
termination
  by (relation "measure nat") auto

declare bit_length.simps [simp del]

text \<open>For a positive \<open>x\<close>, the integer \<open>k\<close> with \<open>2 powi k \<le> x < 2 powi (k + 1)\<close>.\<close>

definition ilog2 :: "rat \<Rightarrow> int" where
  "ilog2 x =
     (if 1 \<le> x then int (bit_length \<lfloor>x\<rfloor>) - 1
      else - int (bit_length (\<lceil>1 / x\<rceil> - 1)))"

text \<open>
  Rounding to the nearest double, an exact half going to the even significand: the
  value is rounded to a whole multiple of \<open>2 powi e\<close>, where \<open>e\<close> leaves 53 binary
  digits to the significand and is not below the exponent of the subnormal
  numbers. A rounded value of \<open>2 powi 1024\<close> or more is no finite double: it stands
  for an overflow.
\<close>

definition fl :: "rat \<Rightarrow> rat" where
  "fl x =
     (if x = 0 then 0
      else let e = max (ilog2 \<bar>x\<bar> - 52) (- 1074)
           in of_int (py_round (x / 2 powi e)) * 2 powi e)"

definition finite_double :: "rat \<Rightarrow> bool" where
  "finite_double y \<longleftrightarrow> ilog2 \<bar>y\<bar> < 1024"

text \<open>C's \<^verbatim>\<open>fmod\<close>, which is exact: the remainder has the sign of the dividend.\<close>

definition c_fmod :: "rat \<Rightarrow> rat \<Rightarrow> rat" where
  "c_fmod a b = a - b * of_int (trunc (a / b))"

text \<open>
  \<^verbatim>\<open>vx % wx\<close> on floats, for a divisor other than zero (the interpreter's
  \<^verbatim>\<open>float_rem\<close>): the exact \<^verbatim>\<open>fmod\<close>, and where its sign is not the divisor's, the
  divisor is added in a float addition.
\<close>

definition py_mod :: "rat \<Rightarrow> rat \<Rightarrow> rat" where
  "py_mod vx wx =
     (let m = c_fmod vx wx
      in if m \<noteq> 0 then (if (wx < 0) \<noteq> (m < 0) then fl (m + wx) else m)
         else 0)"

section \<open>Conversions\<close>

text \<open>
  \<^verbatim>\<open>float(x)\<close>: an integer is rounded to the nearest double, and one that is too
  large raises \<^verbatim>\<open>OverflowError\<close>.
\<close>

fun py_float :: "pylib \<Rightarrow> json \<Rightarrow> exn + rat" where
  "py_float lib (JInt i) =
     (if finite_double (fl (of_int i)) then Inr (fl (of_int i)) else Inl OverflowError)"
| "py_float lib (JFloat r) = Inr r"
| "py_float lib (JBool b) = Inr (if b then 1 else 0)"
| "py_float lib (JStr s) = (case str_to_float lib s of None \<Rightarrow> Inl ValueError | Some r \<Rightarrow> Inr r)"
| "py_float lib _ = Inl TypeError"

fun py_int :: "pylib \<Rightarrow> json \<Rightarrow> exn + int" where
  "py_int lib (JInt i) = Inr i"
| "py_int lib (JFloat r) = Inr (trunc r)"
| "py_int lib (JBool b) = Inr (if b then 1 else 0)"
| "py_int lib (JStr s) = (case str_to_int lib s of None \<Rightarrow> Inl ValueError | Some i \<Rightarrow> Inr i)"
| "py_int lib _ = Inl TypeError"

text \<open>\<^verbatim>\<open>str(x)\<close>, also what \<^verbatim>\<open>f"{x}"\<close> inserts: a string stays as it is.\<close>

fun py_str :: "pylib \<Rightarrow> json \<Rightarrow> string" where
  "py_str lib (JStr s) = s"
| "py_str lib v = repr lib v"

text \<open>\<^verbatim>\<open>datetime.fromisoformat(x)\<close>: the argument must be a string.\<close>

fun py_fromisoformat :: "pylib \<Rightarrow> json \<Rightarrow> exn + datetime" where
  "py_fromisoformat lib (JStr s) =
     (case fromisoformat lib s of None \<Rightarrow> Inl ValueError | Some d \<Rightarrow> Inr d)"
| "py_fromisoformat lib _ = Inl TypeError"

text \<open>\<^verbatim>\<open>a > b\<close> on datetimes: a naive and an aware value do not compare.\<close>

definition datetime_gt :: "datetime \<Rightarrow> datetime \<Rightarrow> exn + bool" where
  "datetime_gt a b =
     (case (utcoffset a, utcoffset b) of
        (Some oa, Some ob) \<Rightarrow> Inr (wall b - ob < wall a - oa)
      | (None, None) \<Rightarrow> Inr (wall b < wall a)
      | _ \<Rightarrow> Inl TypeError)"

section \<open>Condition mapping\<close>

text \<open>\<^verbatim>\<open>STATE_UNAVAILABLE\<close> of \<^verbatim>\<open>homeassistant.const\<close>.\<close>

definition STATE_UNAVAILABLE :: string where
  "STATE_UNAVAILABLE = ''unavailable''"

definition SYMBOL_STATE_MAP :: "(int \<times> string) list" where
  "SYMBOL_STATE_MAP =
    [(1, ''sunny''), (2, ''fog''), (3, ''partlycloudy''), (4, ''rainy''),
     (5, ''lightning-rainy''), (6, ''snowy''), (7, ''snowy-rainy''), (8, ''snowy-rainy''),
     (9, ''snowy-rainy''), (10, ''sunny''), (11, ''sunny''), (12, ''sunny''),
     (13, ''sunny''), (14, ''sunny''), (15, ''sunny''), (16, ''sunny''),
     (17, ''fog''), (18, ''cloudy''), (19, ''cloudy''), (20, ''rainy''),
     (21, ''snowy''), (22, ''snowy-rainy''), (23, ''pouring''), (24, ''snowy''),
     (25, ''rainy''), (26, ''lightning''), (27, ''snowy''), (28, ''cloudy''),
     (29, ''snowy-rainy''), (30, ''snowy-rainy''),
     (-1, ''clear-night''), (-2, ''fog''), (-3, ''cloudy''), (-4, ''rainy''),
     (-5, ''lightning-rainy''), (-6, ''snowy''), (-7, ''snowy''), (-8, ''snowy-rainy''),
     (-9, ''lightning-rainy''), (-10, ''partlycloudy''), (-11, ''rainy''),
     (-12, ''lightning''), (-13, ''snowy''), (-14, ''snowy''), (-15, ''snowy-rainy''),
     (-16, ''partlycloudy''), (-17, ''fog''), (-18, ''cloudy''), (-19, ''cloudy''),
     (-20, ''rainy''), (-21, ''snowy''), (-22, ''snowy-rainy''), (-23, ''pouring''),
     (-24, ''snowy''), (-25, ''rainy''), (-26, ''lightning''), (-27, ''rainy''),
     (-28, ''lightning-rainy''), (-29, ''snowy-rainy''), (-30, ''snowy-rainy'')]"

definition get_condition_from_symbol :: "int \<Rightarrow> string" where
  "get_condition_from_symbol symbol_id =
     (case map_of SYMBOL_STATE_MAP symbol_id of
        None \<Rightarrow> STATE_UNAVAILABLE
      | Some condition \<Rightarrow> condition)"

section \<open>Bearing conversion\<close>

definition CARDINALS :: "string list" where
  "CARDINALS =
    [''N'', ''NNE'', ''NE'', ''ENE'', ''E'', ''ESE'', ''SE'', ''SSE'',
     ''S'', ''SSW'', ''SW'', ''WSW'', ''W'', ''WNW'', ''NW'', ''NNW'']"

definition DEG_HALF_CIRCLE :: rat where
  "DEG_HALF_CIRCLE = 180"

definition DEG_FULL_CIRCLE :: rat where
  "DEG_FULL_CIRCLE = 2 * DEG_HALF_CIRCLE"

definition CARDINAL_DEGREE :: rat where
  "CARDINAL_DEGREE = fl (DEG_FULL_CIRCLE / of_nat (length CARDINALS))"

text \<open>
  The index \<^verbatim>\<open>i\<close> of \<^verbatim>\<open>deg_to_cardinal\<close>, before it is reduced modulo 16: a float
  remainder, a float division and \<^verbatim>\<open>round\<close>.
\<close>

definition cardinal_index :: "rat \<Rightarrow> int" where
  "cardinal_index deg = py_round (fl (py_mod deg DEG_FULL_CIRCLE / CARDINAL_DEGREE))"

definition deg_to_cardinal :: "rat \<Rightarrow> string" where
  "deg_to_cardinal deg =
     CARDINALS ! nat (cardinal_index deg mod int (length CARDINALS))"

section \<open>Forecast parsing\<close>

definition float_field :: "pylib \<Rightarrow> json \<Rightarrow> string \<Rightarrow> exn + rat" where
  "float_field lib d k = try_bind (getitem d k) (py_float lib)"

definition int_field :: "pylib \<Rightarrow> json \<Rightarrow> string \<Rightarrow> exn + int" where
  "int_field lib d k = try_bind (getitem d k) (py_int lib)"

definition parse_forecast :: "pylib \<Rightarrow> json \<Rightarrow> exn + json" where
  "parse_forecast lib day =
     try_bind (try_bind (getitem day ''local_date_time'') (py_fromisoformat lib)) (\<lambda>date.
     try_bind (float_field lib day ''TX_C'') (\<lambda>temp_high.
     try_bind (float_field lib day ''TN_C'') (\<lambda>temp_low.
     try_bind (int_field lib day ''SYMBOL_CODE'') (\<lambda>symbol_id.
     let condition = get_condition_from_symbol symbol_id in
     try_bind (float_field lib day ''RRR_MM'') (\<lambda>precip_total.
     try_bind (int_field lib day ''DD_DEG'') (\<lambda>wind_bearing.
     try_bind (float_field lib day ''FF_KMH'') (\<lambda>wind_speed.
     Inr (JObj
       [(''datetime'', JStr (isoformat lib date)),
        (''temperature'', JFloat temp_high),
        (''condition'', JStr condition),
        (''symbol_id'', JInt symbol_id),
        (''templow'', JFloat temp_low),
        (''precipitation'', JFloat precip_total),
        (''wind_bearing'', JFloat precip_total),
        (''wind_speed'', JFloat wind_speed)]))))))))"

section \<open>Token management\<close>

definition API_URL :: string where
  "API_URL = ''https://api.srgssr.ch''"

definition URL_OAUTH :: string where
  "URL_OAUTH = API_URL @ ''/oauth/v1/accesstoken''"

text \<open>\<^verbatim>\<open>URL_FORECASTS.format(geolocationId=...)\<close>.\<close>

definition URL_FORECASTS :: "string \<Rightarrow> string" where
  "URL_FORECASTS geolocationId = API_URL @ ''/srf-meteo/forecast/'' @ geolocationId"

text \<open>
  Modelled from the spec: the constant \<^verbatim>\<open>ATTR_API_KEY\<close> of \<^verbatim>\<open>const.py\<close>, a file
  that is not among the sources. It is the key of the credential state's
  \<^verbatim>\<open>access_token\<close> entry (specification, section 3).
\<close>

definition ATTR_API_KEY :: string where
  "ATTR_API_KEY = ''access_token''"

text \<open>
  Modelled from the spec: the constant \<^verbatim>\<open>ATTR_EXPIRES_AT\<close> of \<^verbatim>\<open>const.py\<close>, the key
  of the credential state's \<^verbatim>\<open>expires_at\<close> entry.
\<close>

definition ATTR_EXPIRES_AT :: string where
  "ATTR_EXPIRES_AT = ''expires_at''"

text \<open>
  Modelled from the spec: the constant \<^verbatim>\<open>CONF_CONSUMER_KEY\<close> of \<^verbatim>\<open>const.py\<close>, the
  key of the credential state's \<^verbatim>\<open>consumer_key\<close> entry.
\<close>

definition CONF_CONSUMER_KEY :: string where
  "CONF_CONSUMER_KEY = ''consumer_key''"

text \<open>
  Modelled from the spec: the constant \<^verbatim>\<open>CONF_CONSUMER_SECRET\<close> of \<^verbatim>\<open>const.py\<close>,
  the key of the credential state's \<^verbatim>\<open>consumer_secret\<close> entry.
\<close>

definition CONF_CONSUMER_SECRET :: string where
  "CONF_CONSUMER_SECRET = ''consumer_secret''"

text \<open>\<^verbatim>\<open>CONF_LATITUDE\<close>, \<^verbatim>\<open>CONF_LONGITUDE\<close> and \<^verbatim>\<open>HTTP_OK\<close> of \<^verbatim>\<open>homeassistant.const\<close>.\<close>

definition CONF_LATITUDE :: string where
  "CONF_LATITUDE = ''latitude''"

definition CONF_LONGITUDE :: string where
  "CONF_LONGITUDE = ''longitude''"

definition HTTP_OK :: int where
  "HTTP_OK = 200"

text \<open>
  What one update cycle reads from the world: the two readings of \<^verbatim>\<open>time.time()\<close>
  (in \<^verbatim>\<open>get_api_key\<close> and in \<^verbatim>\<open>_check_client_credentials_response\<close>), the aware
  \<^verbatim>\<open>datetime.now().astimezone()\<close>, what the token endpoint and the forecast endpoint
  answer (an exception of the transport, or the response), and what the host's
  \<^verbatim>\<open>async_update_ha_state\<close> and \<^verbatim>\<open>asyncio.sleep\<close> raise, if anything.
\<close>

record http_response =
  status :: int
  headers :: "(string \<times> string) list"
  json_body :: "exn + json"

record env =
  time_time :: rat
  time_issued :: rat
  now_wall :: int
  now_utcoffset :: int
  post_response :: "exn + json"
  get_response :: "exn + http_response"
  ha_state_result :: "exn option"
  sleep_result :: "exn option"

definition datetime_now :: "env \<Rightarrow> datetime" where
  "datetime_now env = \<lparr>wall = now_wall env, utcoffset = Some (now_utcoffset env)\<rparr>"

text \<open>The requests a cycle sends, in order.\<close>

datatype request =
    POST string "(string \<times> string) list" "(string \<times> string) list"
  | GET string "(string \<times> (string \<times> string) list) list"

definition EXPECTED_KEYS :: "string list" where
  "EXPECTED_KEYS = [''issued_at'', ''expires_in'', ''access_token'']"

text \<open>
  \<^verbatim>\<open>_check_client_credentials_response\<close> changes its argument in place; the model
  returns the changed dictionary.
\<close>

fun check_client_credentials_response :: "rat \<Rightarrow> json \<Rightarrow> exn + json" where
  "check_client_credentials_response t (JObj kvs) =
     (let d = (if map_of kvs ''issued_at'' = None
               then AList.update ''issued_at'' (JInt (trunc t)) kvs else kvs);
          missing = filter (\<lambda>k. map_of d k = None) EXPECTED_KEYS
      in if missing \<noteq> [] then Inl ValueError else Inr (JObj d))"
| "check_client_credentials_response t (JList xs) =
     (if JStr ''issued_at'' \<notin> set xs then Inl TypeError else Inl AttributeError)"
| "check_client_credentials_response t (JStr s) =
     (if \<not> str_contains s ''issued_at'' then Inl TypeError else Inl AttributeError)"
| "check_client_credentials_response t _ = Inl TypeError"

definition request_access_token ::
    "pylib \<Rightarrow> env \<Rightarrow> json \<Rightarrow> json \<Rightarrow> (exn + json) \<times> request list" where
  "request_access_token lib env key secret =
     (let auth = b64encode lib (py_str lib key @ '':'' @ py_str lib secret);
          headers = [(''Authorization'', ''Basic '' @ auth)];
          params = [(''grant_type'', ''client_credentials'')];
          reqs = [POST URL_OAUTH params headers]
      in case post_response env of
           Inl x \<Rightarrow> (Inl x, reqs)
         | Inr data \<Rightarrow> (check_client_credentials_response (time_issued env) data, reqs))"

definition renew_api_key ::
    "pylib \<Rightarrow> env \<Rightarrow> (string \<times> json) list \<Rightarrow> exn option \<times> (string \<times> json) list \<times> request list" where
  "renew_api_key lib env data =
     (case dict_get data CONF_CONSUMER_KEY of
        Inl x \<Rightarrow> (Some x, data, [])
      | Inr key \<Rightarrow>
     (case dict_get data CONF_CONSUMER_SECRET of
        Inl x \<Rightarrow> (Some x, data, [])
      | Inr secret \<Rightarrow>
     (case request_access_token lib env key secret of
        (Inl x, reqs) \<Rightarrow> (Some x, data, reqs)
      | (Inr token_data, reqs) \<Rightarrow>
     (case try_bind (int_field lib token_data ''expires_in'') (\<lambda>expires_in.
           try_bind (int_field lib token_data ''issued_at'') (\<lambda>issued_at.
           Inr (expires_in + issued_at div 1000))) of
        Inl x \<Rightarrow> (Some x, data, reqs)
      | Inr expires_at \<Rightarrow>
     (let data1 = AList.update ATTR_EXPIRES_AT (JInt expires_at) data
      in case getitem token_data ''access_token'' of
           Inl x \<Rightarrow> (Some x, data1, reqs)
         | Inr access_token \<Rightarrow>
             (None, AList.update ATTR_API_KEY access_token data1, reqs))))))"

text \<open>\<^verbatim>\<open>time.time() >= expires_at\<close>: a float compares with numbers only.\<close>

fun time_ge :: "rat \<Rightarrow> json \<Rightarrow> exn + bool" where
  "time_ge t (JInt i) = Inr (of_int i \<le> t)"
| "time_ge t (JFloat r) = Inr (r \<le> t)"
| "time_ge t (JBool b) = Inr ((if b then 1 else 0) \<le> t)"
| "time_ge t _ = Inl TypeError"

definition get_api_key ::
    "pylib \<Rightarrow> env \<Rightarrow> (string \<times> json) list \<Rightarrow> (exn + json) \<times> (string \<times> json) list \<times> request list" where
  "get_api_key lib env data =
     (case (case map_of data ATTR_EXPIRES_AT of
              None \<Rightarrow> Inr True
            | Some expires_at \<Rightarrow> time_ge (time_time env) expires_at) of
        Inl x \<Rightarrow> (Inl x, data, [])
      | Inr renew \<Rightarrow>
          (case (if renew then renew_api_key lib env data else (None, data, [])) of
             (Some x, data', reqs) \<Rightarrow> (Inl x, data', reqs)
           | (None, data', reqs) \<Rightarrow> (dict_get data' ATTR_API_KEY, data', reqs)))"

section \<open>The weather entity\<close>

text \<open>
  The attributes of \<^verbatim>\<open>SRGSSTWeather\<close>. The two forecast attributes hold references
  to list objects: \<open>heap\<close> is the store of the list objects created so far, a
  reference is an index into it, and \<^verbatim>\<open>[]\<close> allocates a new object. Appending to a
  list changes the object, so every reference to it sees the change.
\<close>

record entity =
  self_config :: "(string \<times> json) list"
  self_default_params :: "(string \<times> string) list"
  self_api_data :: "(string \<times> json) list"
  heap :: "json list list"
  self_forecast :: nat
  self_hourly_forecast :: nat
  self_state :: "string option"
  self_temperature :: "rat option"
  self_wind_speed :: "rat option"
  self_wind_bearing :: "string option"
  self_state_attrs :: "(string \<times> json) list"

definition new_list :: "json list list \<Rightarrow> nat \<times> json list list" where
  "new_list h = (length h, h @ [[]])"

definition list_append :: "nat \<Rightarrow> json \<Rightarrow> json list list \<Rightarrow> json list list" where
  "list_append a x h = h[a := h ! a @ [x]]"

text \<open>\<^verbatim>\<open>__init__\<close>.\<close>

definition init :: "pylib \<Rightarrow> (string \<times> json) list \<Rightarrow> exn + entity" where
  "init lib config =
     try_bind (dict_get config CONF_LATITUDE) (\<lambda>latitude.
     try_bind (dict_get config CONF_LONGITUDE) (\<lambda>longitude.
     Inr \<lparr>self_config = config,
          self_default_params =
            [(''latitude'', py_str lib latitude), (''longitude'', py_str lib longitude)],
          self_api_data = config,
          heap = [[], []],
          self_forecast = 0,
          self_hourly_forecast = 1,
          self_state = None,
          self_temperature = None,
          self_wind_speed = None,
          self_wind_bearing = None,
          self_state_attrs = []\<rparr>))"

text \<open>The properties \<^verbatim>\<open>forecast\<close> and \<^verbatim>\<open>hourly_forecast\<close> the host reads, and all it reads.\<close>

definition prop_forecast :: "entity \<Rightarrow> json list" where
  "prop_forecast e = heap e ! self_forecast e"

definition prop_hourly_forecast :: "entity \<Rightarrow> json list" where
  "prop_hourly_forecast e = heap e ! self_hourly_forecast e"

definition snapshot ::
    "entity \<Rightarrow> string option \<times> rat option \<times> rat option \<times> string option
       \<times> (string \<times> json) list \<times> json list \<times> json list" where
  "snapshot e =
     (self_state e, self_temperature e, self_wind_speed e, self_wind_bearing e,
      self_state_attrs e, prop_forecast e, prop_hourly_forecast e)"

definition weak_update ::
    "(string \<times> (string \<times> 'v) list) list \<Rightarrow> string \<Rightarrow> (string \<times> 'v) list
       \<Rightarrow> (string \<times> (string \<times> 'v) list) list" where
  "weak_update d key value =
     (case dict_get d key of
        Inl x \<Rightarrow> AList.update key value d
      | Inr existing \<Rightarrow> AList.update key (dict_update value existing) d)"

text \<open>
  The arguments of the rate-limit debug message are computed before the logger is
  called, so their exceptions are those of \<^verbatim>\<open>__get\<close>.
\<close>

definition rate_limit_reset :: "pylib \<Rightarrow> http_response \<Rightarrow> exn option" where
  "rate_limit_reset lib resp =
     (case (case map_of (headers resp) ''x-ratelimit-reset-time'' of
              None \<Rightarrow> Inr 0
            | Some s \<Rightarrow> py_int lib (JStr s)) of
        Inl x \<Rightarrow> Some x
      | Inr ms \<Rightarrow>
          (let t = fl (of_int ms / 1000)
           in if finite_double t then fromtimestamp lib t else Some OverflowError))"

text \<open>
  The body of the \<^verbatim>\<open>async with\<close> block of \<^verbatim>\<open>__get\<close>. \<^verbatim>\<open>raise_for_status\<close> of the
  HTTP client raises for a status of 400 and above.
\<close>

definition read_response :: "pylib \<Rightarrow> http_response \<Rightarrow> exn + json" where
  "read_response lib resp =
     (case (if status resp = HTTP_OK then rate_limit_reset lib resp else None) of
        Some x \<Rightarrow> Inl x
      | None \<Rightarrow>
          try_bind (json_body resp) (\<lambda>data.
          if 400 \<le> status resp then Inl ClientResponseError else Inr data))"

text \<open>\<^verbatim>\<open>__get\<close>.\<close>

definition get ::
    "pylib \<Rightarrow> env \<Rightarrow> string \<Rightarrow> (string \<times> (string \<times> string) list) list \<Rightarrow> entity
       \<Rightarrow> (exn + json) \<times> entity \<times> request list" where
  "get lib env url kwargs e =
     (case get_api_key lib env (self_api_data e) of
        (r, data, reqs) \<Rightarrow>
          (let e1 = e\<lparr>self_api_data := data\<rparr>
           in case r of
                Inl x \<Rightarrow> (Inl x, e1, reqs)
              | Inr api_key \<Rightarrow>
                  (let kwargs1 = weak_update kwargs ''headers''
                         [(''Authorization'', ''Bearer '' @ py_str lib api_key)];
                       reqs1 = reqs @ [GET url kwargs1]
                   in case get_response env of
                        Inl x \<Rightarrow> (Inl x, e1, reqs1)
                      | Inr resp \<Rightarrow> (read_response lib resp, e1, reqs1))))"

text \<open>
  \<^verbatim>\<open>next(futureforecast, None)\<close>: the first record whose time is after \<open>now\<close>; an
  exception raised while a record is examined ends the search.
\<close>

fun next_future :: "pylib \<Rightarrow> datetime \<Rightarrow> json list \<Rightarrow> exn + json option" where
  "next_future lib now [] = Inr None"
| "next_future lib now (f # fs) =
     try_bind (try_bind (getitem f ''local_date_time'') (py_fromisoformat lib)) (\<lambda>d.
     try_bind (datetime_gt d now) (\<lambda>later.
     if later then Inr (Some f) else next_future lib now fs))"

text \<open>Lines 222 to 231 of \<^verbatim>\<open>__update\<close>: the record taken for the current weather.\<close>

definition select_forecastnow :: "pylib \<Rightarrow> datetime \<Rightarrow> json \<Rightarrow> exn + json" where
  "select_forecastnow lib now hourlyforecast =
     try_bind (py_iter hourlyforecast) (\<lambda>fs.
     try_bind (next_future lib now fs) (\<lambda>forecastnow.
     case forecastnow of
       None \<Rightarrow> getitem_last hourlyforecast
     | Some f \<Rightarrow> Inr f))"

text \<open>
  Lines 212 to 235 of \<^verbatim>\<open>__update\<close>: the request, the choice of the current record
  and its symbol code; no attribute the host reads is assigned here. The variable
  \<^verbatim>\<open>geoid\<close> is computed and not used.
\<close>

definition fetch_current ::
    "pylib \<Rightarrow> env \<Rightarrow> entity \<Rightarrow> (exn + json \<times> json \<times> int) \<times> entity \<times> request list" where
  "fetch_current lib env e =
     (case try_bind (dict_get (self_default_params e) ''latitude'') (\<lambda>latitude.
           try_bind (dict_get (self_default_params e) ''longitude'') (\<lambda>longitude.
           Inr (latitude @ '','' @ longitude))) of
        Inl x \<Rightarrow> (Inl x, e, [])
      | Inr geoid \<Rightarrow>
     (let url = URL_FORECASTS ''47.0274,8.3020''
      in case get lib env url [] e of
        (Inl x, e1, reqs) \<Rightarrow> (Inl x, e1, reqs)
      | (Inr data, e1, reqs) \<Rightarrow>
          (try_bind (try_bind (getitem data ''forecast'') (\<lambda>f. getitem f ''60minutes''))
             (\<lambda>hourlyforecast.
           try_bind (select_forecastnow lib (datetime_now env) hourlyforecast) (\<lambda>forecastnow.
           try_bind (int_field lib forecastnow ''SYMBOL_CODE'') (\<lambda>symbol_id.
           Inr (data, forecastnow, symbol_id)))),
           e1, reqs)))"

text \<open>
  Lines 236 to 248 of \<^verbatim>\<open>__update\<close>: the attributes are assigned one after the other,
  and an exception leaves those already assigned in place.
\<close>

definition set_current :: "pylib \<Rightarrow> json \<Rightarrow> int \<Rightarrow> entity \<Rightarrow> exn option \<times> entity" where
  "set_current lib forecastnow symbol_id e =
     (let e1 = e\<lparr>self_state := Some (get_condition_from_symbol symbol_id)\<rparr>
      in case float_field lib forecastnow ''TTT_C'' of
        Inl x \<Rightarrow> (Some x, e1)
      | Inr temperature \<Rightarrow>
     (let e2 = e1\<lparr>self_temperature := Some temperature\<rparr>
      in case float_field lib forecastnow ''FF_KMH'' of
        Inl x \<Rightarrow> (Some x, e2)
      | Inr ff \<Rightarrow>
     (let e3 = e2\<lparr>self_wind_speed := Some ff\<rparr>
      in case float_field lib forecastnow ''FX_KMH'' of
        Inl x \<Rightarrow> (Some x, e3)
      | Inr fx \<Rightarrow>
     (let e4 = e3\<lparr>self_wind_speed := Some fx\<rparr>
      in case float_field lib forecastnow ''DD_DEG'' of
        Inl x \<Rightarrow> (Some x, e4)
      | Inr wind_bearing_deg \<Rightarrow>
     (let e5 = e4\<lparr>self_wind_bearing := Some (deg_to_cardinal wind_bearing_deg)\<rparr>
      in case float_field lib forecastnow ''RRR_MM'' of
        Inl x \<Rightarrow> (Some x, e5)
      | Inr precipitation \<Rightarrow>
     (case float_field lib forecastnow ''PROBPCP_PERCENT'' of
        Inl x \<Rightarrow> (Some x, e5)
      | Inr rain_probability \<Rightarrow>
          (None, e5\<lparr>self_state_attrs :=
             dict_update (self_state_attrs e5)
               [(''wind_direction'', JFloat wind_bearing_deg),
                (''symbol_id'', JInt symbol_id),
                (''precipitation'', JFloat precipitation),
                (''rain_probability'', JFloat rain_probability)]\<rparr>)))))))"

text \<open>
  One of the two parsing loops: every record that parses is appended to the list
  object at \<open>target\<close>, a record that does not is skipped.
\<close>

fun parse_loop :: "pylib \<Rightarrow> nat \<Rightarrow> json list \<Rightarrow> json list list \<Rightarrow> json list list" where
  "parse_loop lib target [] h = h"
| "parse_loop lib target (raw # raws) h =
     (case parse_forecast lib raw of
        Inl x \<Rightarrow> parse_loop lib target raws h
      | Inr parsed \<Rightarrow> parse_loop lib target raws (list_append target parsed h))"

text \<open>
  What one parsing pass is meant to collect: the entries of the records that parse,
  in the order of the records.
\<close>

definition parsed_entries :: "pylib \<Rightarrow> json list \<Rightarrow> json list" where
  "parsed_entries lib raws =
     concat (map (\<lambda>raw. case parse_forecast lib raw of Inl x \<Rightarrow> [] | Inr parsed \<Rightarrow> [parsed]) raws)"

text \<open>
  Lines 250 to 269 of \<^verbatim>\<open>__update\<close>. Both loops append to the list \<^verbatim>\<open>forecast\<close>; the
  second one runs after \<^verbatim>\<open>self._forecast\<close> has been given that same list.
\<close>

definition update_forecasts :: "pylib \<Rightarrow> json \<Rightarrow> entity \<Rightarrow> exn option \<times> entity" where
  "update_forecasts lib data e =
     (case new_list (heap e) of
        (forecast, h1) \<Rightarrow>
     (case try_bind (try_bind (getitem data ''forecast'') (\<lambda>f. getitem f ''day'')) py_iter of
        Inl x \<Rightarrow> (Some x, e\<lparr>heap := h1\<rparr>)
      | Inr days \<Rightarrow>
     (let h2 = parse_loop lib forecast days h1;
          e1 = e\<lparr>heap := h2, self_forecast := forecast\<rparr>
      in case new_list h2 of
        (hourly_forecast, h3) \<Rightarrow>
     (case try_bind (try_bind (getitem data ''forecast'') (\<lambda>f. getitem f ''60minutes'')) py_iter of
        Inl x \<Rightarrow> (Some x, e1\<lparr>heap := h3\<rparr>)
      | Inr hours \<Rightarrow>
          (let h4 = parse_loop lib forecast hours h3
           in (None, e1\<lparr>heap := h4, self_hourly_forecast := hourly_forecast\<rparr>))))))"

text \<open>\<^verbatim>\<open>__update\<close>.\<close>

definition update :: "pylib \<Rightarrow> env \<Rightarrow> entity \<Rightarrow> exn option \<times> entity \<times> request list" where
  "update lib env e =
     (case fetch_current lib env e of
        (Inl x, e1, reqs) \<Rightarrow> (Some x, e1, reqs)
      | (Inr (data, forecastnow, symbol_id), e1, reqs) \<Rightarrow>
     (case set_current lib forecastnow symbol_id e1 of
        (Some x, e2) \<Rightarrow> (Some x, e2, reqs)
      | (None, e2) \<Rightarrow>
     (case update_forecasts lib data e2 of
        (r, e3) \<Rightarrow> (r, e3, reqs))))"

text \<open>
  One turn of \<^verbatim>\<open>__update_loop\<close>: a cancellation is raised again, any other exception
  of \<^verbatim>\<open>__update\<close> is logged, and the state is published only after a cycle without
  exception. The result is the exception that leaves the loop, if any. The length of
  the sleep has no effect on the entity and is not modelled.
\<close>

definition update_loop_turn ::
    "pylib \<Rightarrow> env \<Rightarrow> entity \<Rightarrow> exn option \<times> entity \<times> request list" where
  "update_loop_turn lib env e =
     (case update lib env e of
        (Some x, e1, reqs) \<Rightarrow>
          if x = CancelledError then (Some CancelledError, e1, reqs)
          else (sleep_result env, e1, reqs)
      | (None, e1, reqs) \<Rightarrow>
          (case ha_state_result env of
             Some x \<Rightarrow> (Some x, e1, reqs)
           | None \<Rightarrow> (sleep_result env, e1, reqs)))"

text \<open>\<^verbatim>\<open>__update_loop\<close>, over the worlds of the successive cycles.\<close>

fun update_loop :: "pylib \<Rightarrow> env list \<Rightarrow> entity \<Rightarrow> exn option \<times> entity" where
  "update_loop lib [] e = (None, e)"
| "update_loop lib (env # envs) e =
     (case update_loop_turn lib env e of
        (Some x, e1, reqs) \<Rightarrow> (Some x, e1)
      | (None, e1, reqs) \<Rightarrow> update_loop lib envs e1)"

section \<open>Concrete inputs\<close>

text \<open>
  A library that reads one timestamp, noon of 1 June 2021 at UTC+2, and no number
  from a string; the records below carry their numbers as JSON numbers.
\<close>

definition noon_text :: string where
  "noon_text = ''2021-06-01T12:00:00+02:00''"

definition noon :: datetime where
  "noon = \<lparr>wall = 1622548800000000, utcoffset = Some 7200000000\<rparr>"

definition lib0 :: pylib where
  "lib0 =
     \<lparr>str_to_float = (\<lambda>s. None),
      str_to_int = (\<lambda>s. None),
      fromisoformat = (\<lambda>s. if s = noon_text then Some noon else None),
      isoformat = (\<lambda>d. noon_text),
      fromtimestamp = (\<lambda>t. None),
      repr = (\<lambda>v. []),
      b64encode = (\<lambda>s. s)\<rparr>"

text \<open>A record with every field \<^verbatim>\<open>parse_forecast\<close> and \<^verbatim>\<open>__update\<close> read.\<close>

definition record_ok :: json where
  "record_ok =
     JObj [(''local_date_time'', JStr noon_text),
           (''SYMBOL_CODE'', JInt 1),
           (''TTT_C'', JFloat (43 / 2)),
           (''TX_C'', JInt 24),
           (''TN_C'', JInt 11),
           (''FF_KMH'', JInt 5),
           (''FX_KMH'', JInt 12),
           (''DD_DEG'', JInt 180),
           (''RRR_MM'', JFloat (3 / 2)),
           (''PROBPCP_PERCENT'', JInt 40)]"

text \<open>The entry \<^verbatim>\<open>parse_forecast\<close> makes of it.\<close>

definition entry_ok :: json where
  "entry_ok =
     JObj [(''datetime'', JStr noon_text),
           (''temperature'', JFloat 24),
           (''condition'', JStr ''sunny''),
           (''symbol_id'', JInt 1),
           (''templow'', JFloat 11),
           (''precipitation'', JFloat (3 / 2)),
           (''wind_bearing'', JFloat (3 / 2)),
           (''wind_speed'', JFloat 5)]"

text \<open>The same record with a temperature that is no number.\<close>

definition record_bad_temperature :: json where
  "record_bad_temperature =
     JObj [(''local_date_time'', JStr noon_text),
           (''SYMBOL_CODE'', JInt 1),
           (''TTT_C'', JFloat (43 / 2)),
           (''TX_C'', JStr ''n/a''),
           (''TN_C'', JInt 11),
           (''FF_KMH'', JInt 5),
           (''FX_KMH'', JInt 12),
           (''DD_DEG'', JInt 180),
           (''RRR_MM'', JFloat (3 / 2)),
           (''PROBPCP_PERCENT'', JInt 40)]"

text \<open>A current record with a symbol code and nothing else to read.\<close>

definition record_symbol_only :: json where
  "record_symbol_only =
     JObj [(''local_date_time'', JStr noon_text), (''SYMBOL_CODE'', JInt 1)]"

definition response_body :: "json list \<Rightarrow> json list \<Rightarrow> json" where
  "response_body hours days =
     JObj [(''forecast'', JObj [(''60minutes'', JList hours), (''day'', JList days)])]"

definition token_document :: json where
  "token_document = JObj [(''access_token'', JStr ''tok''), (''expires_in'', JInt 3600)]"

text \<open>
  A cycle at eleven o'clock of the same day, in which the token endpoint answers
  with the given document and the forecast endpoint with the given status and
  document.
\<close>

definition env0 :: "json \<Rightarrow> int \<Rightarrow> json \<Rightarrow> env" where
  "env0 token code document =
     \<lparr>time_time = 1622538000,
      time_issued = 1622538000,
      now_wall = 1622545200000000,
      now_utcoffset = 7200000000,
      post_response = Inr token,
      get_response = Inr \<lparr>status = code, headers = [], json_body = Inr document\<rparr>,
      ha_state_result = None,
      sleep_result = None\<rparr>"

text \<open>An entity for Geneva, as \<^verbatim>\<open>__init__\<close> leaves it, and one that holds a valid token.\<close>

definition config0 :: "(string \<times> json) list" where
  "config0 =
     [(''latitude'', JStr ''46.2''), (''longitude'', JStr ''6.1''),
      (''consumer_key'', JStr ''key''), (''consumer_secret'', JStr ''secret'')]"

definition entity0 :: entity where
  "entity0 =
     \<lparr>self_config = config0,
      self_default_params = [(''latitude'', ''46.2''), (''longitude'', ''6.1'')],
      self_api_data = config0,
      heap = [[], []],
      self_forecast = 0,
      self_hourly_forecast = 1,
      self_state = None,
      self_temperature = None,
      self_wind_speed = None,
      self_wind_bearing = None,
      self_state_attrs = []\<rparr>"

definition entity1 :: entity where
  "entity1 =
     entity0\<lparr>self_api_data :=
       config0 @ [(''expires_at'', JInt 1622541600), (''access_token'', JStr ''tok'')]\<rparr>"

section \<open>Auxiliary facts\<close>

subsection \<open>Rounding\<close>

lemma py_round_frac:
  fixes q :: rat
  shows "0 \<le> q - of_int \<lfloor>q\<rfloor> \<and> q - of_int \<lfloor>q\<rfloor> < 1"
  using floor_correct [of q] by linarith

lemma py_round_near: "\<bar>q - of_int (py_round q)\<bar> \<le> 1 / 2"
  using py_round_frac [of q] by (auto simp: py_round_def Let_def)

lemma py_round_tie: "\<bar>q - of_int (py_round q)\<bar> = 1 / 2 \<Longrightarrow> even (py_round q)"
  using py_round_frac [of q] by (auto simp: py_round_def Let_def split: if_splits)

lemma py_round_nonneg: "0 \<le> q \<Longrightarrow> 0 \<le> py_round q"
  by (auto simp: py_round_def Let_def)

lemma py_round_le:
  assumes "q \<le> of_int n"
  shows "py_round q \<le> n"
proof (cases "\<lfloor>q\<rfloor> = n")
  case True
  with assms have "q = of_int n" using of_int_floor_le [of q] by simp
  then show ?thesis by (simp add: py_round_def)
next
  case False
  from assms have "\<lfloor>q\<rfloor> \<le> n" by (simp add: floor_le_iff)
  with False have "\<lfloor>q\<rfloor> + 1 \<le> n" by simp
  then show ?thesis by (auto simp: py_round_def Let_def)
qed

lemma bit_length_lower: "0 < n \<Longrightarrow> 2 ^ (bit_length n - 1) \<le> n"
proof (induction n rule: bit_length.induct)
  case (1 n)
  show ?case
  proof (cases "n div 2 \<le> 0")
    case True
    with "1.prems" have "n = 1" by simp
    then show ?thesis by (simp add: bit_length.simps [of 1] bit_length.simps [of 0])
  next
    case False
    then have pos: "0 < n div 2" by simp
    with "1.IH" "1.prems" have ih: "2 ^ (bit_length (n div 2) - 1) \<le> n div 2" by simp
    from pos have "0 < bit_length (n div 2)" by (simp add: bit_length.simps [of "n div 2"])
    then have "bit_length n - 1 = Suc (bit_length (n div 2) - 1)"
      using "1.prems" by (simp add: bit_length.simps [of n])
    then have "(2::int) ^ (bit_length n - 1) = 2 * 2 ^ (bit_length (n div 2) - 1)" by simp
    also have "\<dots> \<le> 2 * (n div 2)" using ih by simp
    also have "\<dots> \<le> n" by simp
    finally show ?thesis .
  qed
qed

lemma ilog2_upper:
  assumes "0 < y" and "y < 2 ^ Suc k"
  shows "ilog2 y \<le> int k"
proof (cases "1 \<le> y")
  case False
  then show ?thesis by (simp add: ilog2_def)
next
  case True
  let ?n = "\<lfloor>y\<rfloor>"
  from True have pos: "0 < ?n" by simp
  have "(of_int ?n :: rat) < 2 ^ Suc k"
    using of_int_floor_le [of y] assms(2) by linarith
  then have "(of_int ?n :: rat) < of_int (2 ^ Suc k)" by simp
  then have lt: "?n < 2 ^ Suc k" by (simp only: of_int_less_iff)
  from bit_length_lower [OF pos] lt have "(2::int) ^ (bit_length ?n - 1) < 2 ^ Suc k" by linarith
  then have "bit_length ?n - 1 < Suc k"
    by (simp only: power_strict_increasing_iff [of "2::int"] semiring_norm)
  then have "int (bit_length ?n) - 1 \<le> int k" by linarith
  with True show ?thesis by (simp add: ilog2_def)
qed

lemma fl_nonneg: "0 \<le> x \<Longrightarrow> 0 \<le> fl x"
  by (simp add: fl_def Let_def py_round_nonneg)

lemma fl_le_grid:
  assumes "0 < y" and "y \<le> of_int n * 2 powi k"
      and "max (ilog2 \<bar>y\<bar> - 52) (- 1074) \<le> k"
  shows "fl y \<le> of_int n * 2 powi k"
proof -
  define e where "e = max (ilog2 \<bar>y\<bar> - 52) (- 1074)"
  have p: "(0::rat) < 2 powi e" by simp
  have "(2::rat) powi k = 2 powi (e + (k - e))" by simp
  also have "\<dots> = 2 powi e * 2 powi (k - e)" by (subst power_int_add) simp_all
  also have "(2::rat) powi (k - e) = 2 ^ nat (k - e)"
    using assms(3) by (simp add: power_int_def e_def)
  finally have k: "(2::rat) powi k = 2 powi e * 2 ^ nat (k - e)" .
  have "y / 2 powi e \<le> of_int n * 2 ^ nat (k - e)"
    using assms(2) p by (simp add: k field_simps)
  also have "\<dots> = of_int (n * 2 ^ nat (k - e))" by simp
  finally have "py_round (y / 2 powi e) \<le> n * 2 ^ nat (k - e)" by (rule py_round_le)
  then have "(of_int (py_round (y / 2 powi e)) :: rat) \<le> of_int (n * 2 ^ nat (k - e))"
    by (simp only: of_int_le_iff)
  then have "(of_int (py_round (y / 2 powi e)) :: rat) * 2 powi e
               \<le> of_int (n * 2 ^ nat (k - e)) * 2 powi e"
    using p by (simp only: mult_le_cancel_right_pos)
  also have "\<dots> = of_int n * 2 powi k" by (simp add: k)
  finally show ?thesis using assms(1) by (simp add: fl_def Let_def e_def)
qed

lemma fl_error:
  assumes "0 < y" and "max (ilog2 \<bar>y\<bar> - 52) (- 1074) \<le> k"
  shows "\<bar>fl y - y\<bar> \<le> 2 powi k / 2"
proof -
  define e where "e = max (ilog2 \<bar>y\<bar> - 52) (- 1074)"
  define z where "z = y / 2 powi e"
  have p: "(0::rat) < 2 powi e" by simp
  have y: "y = z * 2 powi e" by (simp add: z_def)
  have "fl y = of_int (py_round z) * 2 powi e"
    using assms(1) by (simp add: fl_def Let_def e_def z_def)
  then have "fl y - y = (of_int (py_round z) - z) * 2 powi e"
    by (subst (2) y) (simp add: algebra_simps)
  then have "\<bar>fl y - y\<bar> = \<bar>z - of_int (py_round z)\<bar> * 2 powi e"
    using p by (simp add: abs_mult abs_minus_commute)
  also have "\<dots> \<le> 1 / 2 * 2 powi e"
    using py_round_near [of z] p by (simp only: mult_le_cancel_right_pos)
  also have "\<dots> \<le> 1 / 2 * 2 powi k"
    using assms(2) by (simp add: e_def power_int_increasing)
  finally show ?thesis by simp
qed

text \<open>Integers of up to 53 binary digits are doubles, and \<^verbatim>\<open>float\<close> keeps them.\<close>

lemma py_round_of_int: "py_round (of_int n) = n"
  by (simp add: py_round_def)

lemma fl_of_small_int:
  assumes "\<bar>i\<bar> < 2 ^ 53"
  shows "fl (of_int i) = of_int i"
proof (cases "i = 0")
  case True
  then show ?thesis by (simp add: fl_def)
next
  case False
  let ?x = "of_int i :: rat"
  define e where "e = max (ilog2 \<bar>?x\<bar> - 52) (- 1074)"
  from False have pos: "0 < \<bar>?x\<bar>" by simp
  have "\<bar>?x\<bar> = of_int \<bar>i\<bar>" by simp
  also have "\<dots> < of_int (2 ^ 53)" using assms by (simp only: of_int_less_iff)
  finally have "\<bar>?x\<bar> < 2 ^ Suc 52" by simp
  from ilog2_upper [OF pos this] have e: "e \<le> 0" by (simp add: e_def)
  then have p: "(2::rat) powi e = 1 / 2 ^ nat (- e)"
    by (simp add: power_int_def field_simps)
  then have "?x / 2 powi e = of_int (i * 2 ^ nat (- e))" by simp
  then have "py_round (?x / 2 powi e) = i * 2 ^ nat (- e)"
    by (simp only: py_round_of_int)
  then have "of_int (py_round (?x / 2 powi e)) * 2 powi e = ?x" by (simp add: p)
  with False show ?thesis by (simp add: fl_def Let_def e_def)
qed

lemma py_float_small_int:
  assumes "\<bar>i\<bar> < 2 ^ 53"
  shows "py_float lib (JInt i) = Inr (of_int i)"
proof -
  have "ilog2 \<bar>of_int i :: rat\<bar> < 1024"
  proof (cases "i = 0")
    case True
    then show ?thesis by (simp add: ilog2_def bit_length.simps [of "- 1"])
  next
    case False
    then have pos: "0 < \<bar>of_int i :: rat\<bar>" by simp
    have "\<bar>of_int i :: rat\<bar> = of_int \<bar>i\<bar>" by simp
    also have "\<dots> < of_int (2 ^ 53)" using assms by (simp only: of_int_less_iff)
    finally have "\<bar>of_int i :: rat\<bar> < 2 ^ Suc 52" by simp
    from ilog2_upper [OF pos this] show ?thesis by simp
  qed
  then show ?thesis by (simp add: fl_of_small_int [OF assms] finite_double_def)
qed

text \<open>Some values of \<open>fl\<close>, among them those of \<^verbatim>\<open>0.1\<close> and \<^verbatim>\<open>float(2**53 + 1)\<close>.\<close>

lemma fl_examples:
  "fl (1 / 10) = 3602879701896397 / 36028797018963968"
  "fl (2 ^ 53 + 1) = 2 ^ 53"
  "fl (45 / 4 + 1 / 2 ^ 49) = 45 / 4 + 1 / 2 ^ 49"
  "fl (45 / 4 + 1 / 2 ^ 49 + 360) = 45 / 4 + 360"
  by code_simp+

subsection \<open>Remainder and quotient of the bearing\<close>

lemma consts_simps: "DEG_FULL_CIRCLE = 360" "CARDINAL_DEGREE = 45 / 2" "length CARDINALS = 16"
  by code_simp+

lemma remainder_range:
  fixes d :: rat
  shows "0 \<le> d - 360 * of_int \<lfloor>d / 360\<rfloor> \<and> d - 360 * of_int \<lfloor>d / 360\<rfloor> < 360"
  using floor_correct [of "d / 360"] by (simp add: field_simps)

lemma remainder_period:
  fixes d :: rat
  shows "d + 360 - 360 * of_int \<lfloor>(d + 360) / 360\<rfloor> = d - 360 * of_int \<lfloor>d / 360\<rfloor>"
proof -
  have h: "(d + 360) / 360 = d / 360 + 1" by (simp add: add_divide_distrib)
  have f: "\<lfloor>d / 360 + 1\<rfloor> = \<lfloor>d / 360\<rfloor> + 1" by simp
  have "\<lfloor>(d + 360) / 360\<rfloor> = \<lfloor>d / 360\<rfloor> + 1" unfolding h by (rule f)
  then show ?thesis by (simp add: algebra_simps)
qed

lemma fl_below_360:
  assumes "0 \<le> y" and "y < 360"
  shows "0 \<le> fl y \<and> fl y \<le> 360"
proof (cases "y = 0")
  case True
  then show ?thesis by (simp add: fl_def)
next
  case False
  with assms have pos: "0 < y" by simp
  from assms have "y < 2 ^ Suc 8" by simp
  from ilog2_upper [OF pos this] pos have e: "max (ilog2 \<bar>y\<bar> - 52) (- 1074) \<le> 3" by simp
  have "y \<le> of_int 45 * 2 powi 3" using assms by (simp add: power_int_def)
  from fl_le_grid [OF pos this e] have "fl y \<le> 360" by (simp add: power_int_def)
  with fl_nonneg [OF assms(1)] show ?thesis by simp
qed

lemma py_mod_360:
  "py_mod d 360 =
     (if 0 \<le> d then d - 360 * of_int \<lfloor>d / 360\<rfloor> else fl (d - 360 * of_int \<lfloor>d / 360\<rfloor>))"
proof (cases "0 \<le> d")
  case True
  then have t: "trunc (d / 360) = \<lfloor>d / 360\<rfloor>" by (simp add: trunc_def)
  from remainder_range [of d] True show ?thesis
    by (auto simp: py_mod_def c_fmod_def t Let_def)
next
  case False
  then have t: "trunc (d / 360) = \<lceil>d / 360\<rceil>" by (simp add: trunc_def)
  show ?thesis
  proof (cases "of_int \<lfloor>d / 360\<rfloor> = d / 360")
    case True
    then have "\<lceil>d / 360\<rceil> = \<lfloor>d / 360\<rfloor>" by (metis ceiling_of_int)
    moreover from True have "d - 360 * of_int \<lfloor>d / 360\<rfloor> = 0" by simp
    ultimately show ?thesis using False by (simp add: py_mod_def c_fmod_def t Let_def fl_def)
  next
    case nonint: False
    then have c: "\<lceil>d / 360\<rceil> = \<lfloor>d / 360\<rfloor> + 1"
      by (metis ceiling_altdef)
    from remainder_range [of d] nonint have "0 < d - 360 * of_int \<lfloor>d / 360\<rfloor>"
      by (auto simp: field_simps less_le)
    with remainder_range [of d] have m: "d - 360 * of_int (\<lfloor>d / 360\<rfloor> + 1) < 0"
      "d - 360 * of_int (\<lfloor>d / 360\<rfloor> + 1) \<noteq> 0"
      by (simp_all add: algebra_simps)
    have s: "d - 360 * of_int (\<lfloor>d / 360\<rfloor> + 1) + 360 = d - 360 * of_int \<lfloor>d / 360\<rfloor>"
      by (simp add: algebra_simps)
    from False m show ?thesis
      by (simp add: py_mod_def c_fmod_def t c Let_def s)
  qed
qed

lemma py_mod_range: "0 \<le> py_mod d 360 \<and> py_mod d 360 \<le> 360"
  using remainder_range [of d] fl_below_360 [of "d - 360 * of_int \<lfloor>d / 360\<rfloor>"]
  by (auto simp: py_mod_360)

lemma py_mod_period:
  assumes "fl (d + 360) = d + 360"
  shows "py_mod (d + 360) 360 = py_mod d 360"
proof -
  consider "0 \<le> d" | "d + 360 < 0" | "d = - 360" | "- 360 < d" "d < 0" by linarith
  then show ?thesis
  proof cases
    case 1
    then show ?thesis by (simp add: py_mod_360 remainder_period)
  next
    case 2
    then show ?thesis by (simp add: py_mod_360 remainder_period)
  next
    case 3
    then show ?thesis by (simp add: py_mod_360 fl_def)
  next
    case 4
    then have "\<lfloor>d / 360\<rfloor> = - 1" by (simp add: floor_eq_iff)
    then have r: "d - 360 * of_int \<lfloor>d / 360\<rfloor> = d + 360" by simp
    have "py_mod d 360 = fl (d - 360 * of_int \<lfloor>d / 360\<rfloor>)"
      using 4 by (simp add: py_mod_360)
    also have "\<dots> = fl (d + 360)" by (simp only: r)
    also have "\<dots> = d + 360" by (rule assms)
    finally have a: "py_mod d 360 = d + 360" .
    have "py_mod (d + 360) 360 = d + 360 - 360 * of_int \<lfloor>(d + 360) / 360\<rfloor>"
      using 4 by (simp add: py_mod_360)
    also have "\<dots> = d - 360 * of_int \<lfloor>d / 360\<rfloor>" by (rule remainder_period)
    also have "\<dots> = d + 360" by (rule r)
    finally show ?thesis using a by simp
  qed
qed

lemma quotient_rounding:
  assumes "0 \<le> r" and "r \<le> 360"
  shows "0 \<le> fl (r / (45 / 2)) \<and> fl (r / (45 / 2)) \<le> 16
         \<and> \<bar>fl (r / (45 / 2)) - r / (45 / 2)\<bar> \<le> 1 / 2 ^ 49"
proof (cases "r = 0")
  case True
  then show ?thesis by (simp add: fl_def)
next
  case False
  let ?q = "r / (45 / 2)"
  from False assms have pos: "0 < ?q" by simp
  from assms have le: "?q \<le> 16" by simp
  then have "?q < 2 ^ Suc 4" by simp
  from ilog2_upper [OF pos this] pos
  have e: "max (ilog2 \<bar>?q\<bar> - 52) (- 1074) \<le> - 48" by simp
  then have e4: "max (ilog2 \<bar>?q\<bar> - 52) (- 1074) \<le> 4" by simp
  have "?q \<le> of_int 1 * 2 powi 4" using le by (simp add: power_int_def)
  from fl_le_grid [OF pos this e4] have u: "fl ?q \<le> 16" by (simp add: power_int_def)
  from fl_error [OF pos e] have "\<bar>fl ?q - ?q\<bar> \<le> 1 / 2 ^ 49"
    by (simp add: power_int_def field_simps)
  with u fl_nonneg [of ?q] pos show ?thesis by simp
qed

subsection \<open>The entity across a cycle\<close>

text \<open>The concrete entity is the one \<^verbatim>\<open>__init__\<close> builds from its configuration.\<close>

lemma init_entity0: "init lib0 config0 = Inr entity0"
  by code_simp

lemma snapshot_api_data: "snapshot (e\<lparr>self_api_data := d\<rparr>) = snapshot e"
  by (simp add: snapshot_def prop_forecast_def prop_hourly_forecast_def)

lemma get_entity:
  assumes "get lib env url kwargs e = (r, e1, reqs)"
  shows "\<exists>d. e1 = e\<lparr>self_api_data := d\<rparr>"
  using assms by (auto simp: get_def Let_def split: prod.splits sum.splits)

lemma fetch_current_entity:
  assumes "fetch_current lib env e = (r, e1, reqs)"
  shows "e1 = e \<or> (\<exists>d. e1 = e\<lparr>self_api_data := d\<rparr>)"
proof (cases "try_bind (dict_get (self_default_params e) ''latitude'') (\<lambda>latitude.
           try_bind (dict_get (self_default_params e) ''longitude'') (\<lambda>longitude.
           Inr (latitude @ '','' @ longitude)))")
  case (Inl x)
  with assms show ?thesis by (simp add: fetch_current_def)
next
  case (Inr geoid)
  obtain r' e' reqs' where g: "get lib env (URL_FORECASTS ''47.0274,8.3020'') [] e = (r', e', reqs')"
    by (cases "get lib env (URL_FORECASTS ''47.0274,8.3020'') [] e") auto
  from assms Inr g have "e1 = e'"
    by (auto simp: fetch_current_def Let_def split: sum.splits)
  with get_entity [OF g] show ?thesis by blast
qed

lemma fetch_current_snapshot:
  assumes "fetch_current lib env e = (r, e1, reqs)"
  shows "snapshot e1 = snapshot e"
  using fetch_current_entity [OF assms] by (auto simp: snapshot_api_data)

text \<open>
  The failures named for the early part of a cycle are failures of
  \<open>fetch_current\<close>: a failed token renewal, and a forecast response with a status
  of 400 or above.
\<close>

lemma fetch_current_token_failure:
  assumes "get_api_key lib env (self_api_data e) = (Inl x, d, rs)"
  shows "\<exists>y e1 reqs. fetch_current lib env e = (Inl y, e1, reqs)"
  using assms
  by (auto simp: fetch_current_def get_def Let_def split: sum.splits prod.splits)

lemma read_response_bad_status:
  assumes "400 \<le> status resp"
  shows "\<exists>y. read_response lib resp = Inl y"
  using assms
  by (auto simp: read_response_def try_bind_def HTTP_OK_def split: sum.splits option.splits)

lemma fetch_current_bad_status:
  assumes "get_response env = Inr resp" and "400 \<le> status resp"
  shows "\<exists>y e1 reqs. fetch_current lib env e = (Inl y, e1, reqs)"
proof -
  from read_response_bad_status [OF assms(2)] obtain y where "read_response lib resp = Inl y"
    by blast
  with assms(1) show ?thesis
    by (auto simp: fetch_current_def get_def Let_def split: sum.splits prod.splits)
qed

text \<open>Only a cancellation, the host's publish call or the sleep can end the loop.\<close>

lemma update_loop_turn_raises:
  assumes "update_loop_turn lib env e = (Some x, e1, reqs)"
  shows "x = CancelledError \<or> ha_state_result env = Some x \<or> sleep_result env = Some x"
  using assms
  by (auto simp: update_loop_turn_def split: prod.splits option.splits if_splits)

subsection \<open>Token renewal\<close>

lemma check_missing:
  assumes "map_of kvs ''access_token'' = None \<or> map_of kvs ''expires_in'' = None"
  shows "check_client_credentials_response t (JObj kvs) = Inl ValueError"
  using assms by (auto simp: EXPECTED_KEYS_def Let_def update_conv')

lemma renew_api_key_requests:
  assumes "dict_get data CONF_CONSUMER_KEY = Inr key"
      and "dict_get data CONF_CONSUMER_SECRET = Inr secret"
  shows "snd (snd (renew_api_key lib env data)) =
           [POST URL_OAUTH [(''grant_type'', ''client_credentials'')]
              [(''Authorization'', ''Basic '' @ b64encode lib (py_str lib key @ '':'' @ py_str lib secret))]]"
  using assms
  by (simp add: renew_api_key_def request_access_token_def Let_def split: sum.splits)

text \<open>
  With \<^verbatim>\<open>issued_at\<close> supplied by the provider, a renewal stores
  \<^verbatim>\<open>expires_in + issued_at // 1000\<close> and the token.
\<close>

lemma renew_api_key_stores_expiry:
  assumes "dict_get data CONF_CONSUMER_KEY = Inr key"
      and "dict_get data CONF_CONSUMER_SECRET = Inr secret"
      and "post_response env = Inr (JObj kvs)"
      and "map_of kvs ''access_token'' = Some token"
      and "map_of kvs ''expires_in'' = Some (JInt expires_in)"
      and "map_of kvs ''issued_at'' = Some (JInt issued_at)"
  shows "fst (renew_api_key lib env data) = None
         \<and> fst (snd (renew_api_key lib env data)) =
             AList.update ATTR_API_KEY token
               (AList.update ATTR_EXPIRES_AT (JInt (expires_in + issued_at div 1000)) data)"
proof -
  have c: "check_client_credentials_response (time_issued env) (JObj kvs) = Inr (JObj kvs)"
    using assms(4-6) by (simp add: EXPECTED_KEYS_def)
  have t: "fst (request_access_token lib env key secret) = Inr (JObj kvs)"
    using assms(3) c by (simp add: request_access_token_def Let_def)
  obtain rs where "request_access_token lib env key secret = (Inr (JObj kvs), rs)"
    using t by (cases "request_access_token lib env key secret") auto
  with assms(1,2,4-6) show ?thesis
    by (simp add: renew_api_key_def int_field_def try_bind_def dict_get_def Let_def)
qed

subsection \<open>The requests of a cycle\<close>

text \<open>Whatever the entity's coordinates, a cycle sends its GET to one fixed URL.\<close>

lemma renew_api_key_posts:
  "GET url kwargs \<notin> set (snd (snd (renew_api_key lib env data)))"
  by (auto simp: renew_api_key_def request_access_token_def Let_def
           split: sum.splits prod.splits)

lemma get_api_key_posts:
  "GET url kwargs \<notin> set (snd (snd (get_api_key lib env data)))"
  using renew_api_key_posts [of url kwargs lib env data]
  by (auto simp: get_api_key_def split: sum.splits prod.splits option.splits if_splits)

lemma get_request_url:
  assumes "GET url kwargs \<in> set (snd (snd (get lib env u kw e)))"
  shows "url = u"
  using assms get_api_key_posts [of url kwargs lib env "self_api_data e"]
  by (auto simp: get_def Let_def split: sum.splits prod.splits)

lemma update_request_url:
  assumes "GET url kwargs \<in> set (snd (snd (update lib env e)))"
  shows "url = URL_FORECASTS ''47.0274,8.3020''"
proof -
  have "snd (snd (update lib env e)) = snd (snd (fetch_current lib env e))"
    by (auto simp: update_def split: sum.splits prod.splits option.splits)
  with assms have "GET url kwargs \<in> set (snd (snd (fetch_current lib env e)))" by simp
  then have "GET url kwargs \<in> set (snd (snd (get lib env (URL_FORECASTS ''47.0274,8.3020'') [] e)))"
    by (auto simp: fetch_current_def Let_def split: sum.splits prod.splits)
  then show ?thesis by (rule get_request_url)
qed

subsection \<open>The current record and the two parsing passes\<close>

lemma set_current_wind_speed:
  assumes "set_current lib forecastnow symbol_id e = (None, e')"
  shows "\<exists>fx. float_field lib forecastnow ''FX_KMH'' = Inr fx \<and> self_wind_speed e' = Some fx"
  using assms unfolding set_current_def Let_def
  by (auto split: sum.splits)

lemma update_forecasts_wind_speed:
  assumes "update_forecasts lib data e = (r, e')"
  shows "self_wind_speed e' = self_wind_speed e"
  using assms unfolding update_forecasts_def Let_def new_list_def
  by (auto split: sum.splits prod.splits)

lemma parse_loop_length: "length (parse_loop lib a raws h) = length h"
  by (induction raws arbitrary: h) (auto simp: list_append_def split: sum.splits)

lemma parse_loop_other: "b \<noteq> a \<Longrightarrow> parse_loop lib a raws h ! b = h ! b"
  by (induction raws arbitrary: h) (auto simp: list_append_def split: sum.splits)

lemma parse_loop_target:
  "a < length h \<Longrightarrow> parse_loop lib a raws h ! a = h ! a @ parsed_entries lib raws"
  by (induction raws arbitrary: h) (auto simp: list_append_def parsed_entries_def split: sum.splits)

text \<open>
  After a cycle without exception the list behind \<^verbatim>\<open>forecast\<close> holds the entries of
  the daily records followed by those of the hourly records, and the list behind
  \<^verbatim>\<open>hourly_forecast\<close> is empty.
\<close>

lemma update_forecasts_published:
  assumes "update_forecasts lib data e = (None, e')"
  shows "\<exists>days hours.
           try_bind (try_bind (getitem data ''forecast'') (\<lambda>f. getitem f ''day'')) py_iter = Inr days
           \<and> try_bind (try_bind (getitem data ''forecast'') (\<lambda>f. getitem f ''60minutes'')) py_iter = Inr hours
           \<and> prop_forecast e' = parsed_entries lib days @ parsed_entries lib hours
           \<and> prop_hourly_forecast e' = []"
proof -
  let ?a = "length (heap e)"
  let ?h1 = "heap e @ [[]]"
  obtain days where d: "try_bind (try_bind (getitem data ''forecast'') (\<lambda>f. getitem f ''day'')) py_iter = Inr days"
    using assms unfolding update_forecasts_def new_list_def
    by (cases "try_bind (try_bind (getitem data ''forecast'') (\<lambda>f. getitem f ''day'')) py_iter") auto
  let ?h2 = "parse_loop lib ?a days ?h1"
  let ?h3 = "?h2 @ [[]]"
  obtain hours where h: "try_bind (try_bind (getitem data ''forecast'') (\<lambda>f. getitem f ''60minutes'')) py_iter = Inr hours"
    using assms d unfolding update_forecasts_def new_list_def Let_def
    by (cases "try_bind (try_bind (getitem data ''forecast'') (\<lambda>f. getitem f ''60minutes'')) py_iter") auto
  let ?h4 = "parse_loop lib ?a hours ?h3"
  have e': "heap e' = ?h4" "self_forecast e' = ?a" "self_hourly_forecast e' = length ?h2"
    using assms d h unfolding update_forecasts_def new_list_def Let_def by auto
  have len2: "length ?h2 = Suc ?a" by (simp add: parse_loop_length)
  have t2: "?h2 ! ?a = parsed_entries lib days"
    using parse_loop_target [of ?a ?h1 lib days] by simp
  have t3: "?h3 ! ?a = parsed_entries lib days"
    using t2 len2 by (simp add: nth_append)
  have "?h4 ! ?a = ?h3 ! ?a @ parsed_entries lib hours"
    using parse_loop_target [of ?a ?h3 lib hours] len2 by simp
  then have f: "prop_forecast e' = parsed_entries lib days @ parsed_entries lib hours"
    using e' t3 by (simp add: prop_forecast_def)
  have "?h4 ! length ?h2 = ?h3 ! length ?h2"
    using parse_loop_other [of "length ?h2" ?a lib hours ?h3] len2 by simp
  then have g: "prop_hourly_forecast e' = []"
    using e' by (simp add: prop_hourly_forecast_def)
  from d h f g show ?thesis by blast
qed

section \<open>The claims\<close>

subsection \<open>C1: the hourly forecast sequence\<close>

text \<open>
  C1 asks that after a successful cycle the hourly sequence holds the parsed hourly
  entries and the daily sequence only entries of the daily array. The second loop
  of \<^verbatim>\<open>__update\<close> appends to \<^verbatim>\<open>forecast\<close>, the list already stored in
  \<^verbatim>\<open>self._forecast\<close>, and \<^verbatim>\<open>hourly_forecast\<close> stays empty: for a response with one
  hourly record that parses and no daily record, the cycle succeeds, the published
  hourly sequence is empty and the published daily sequence holds the hourly entry.
\<close>

theorem update_hourly_entries_land_in_daily_list:
  "parse_forecast lib0 record_ok = Inr entry_ok
   \<and> fst (update lib0 (env0 token_document 200 (response_body [record_ok] [])) entity1) = None
   \<and> prop_hourly_forecast
        (fst (snd (update lib0 (env0 token_document 200 (response_body [record_ok] [])) entity1))) = []
   \<and> prop_forecast
        (fst (snd (update lib0 (env0 token_document 200 (response_body [record_ok] [])) entity1))) = [entry_ok]"
  by code_simp

subsection \<open>C2: the forecast URL\<close>

text \<open>
  C2 asks that the request goes to the URL built from the entity's coordinates.
  \<^verbatim>\<open>__update\<close> formats the URL with the literal \<^verbatim>\<open>"47.0274,8.3020"\<close>: an entity
  configured for latitude 46.2 and longitude 6.1 sends its one request, with the
  header \<^verbatim>\<open>Authorization: Bearer tok\<close>, to the URL of 47.0274,8.3020 and not to the
  URL of 46.2,6.1.
\<close>

theorem update_url_ignores_coordinates:
  "self_default_params entity1 = [(''latitude'', ''46.2''), (''longitude'', ''6.1'')]
   \<and> snd (snd (update lib0 (env0 token_document 200 (response_body [record_ok] [])) entity1)) =
       [GET ''https://api.srgssr.ch/srf-meteo/forecast/47.0274,8.3020''
          [(''headers'', [(''Authorization'', ''Bearer tok'')])]]
   \<and> URL_FORECASTS ''46.2,6.1'' = ''https://api.srgssr.ch/srf-meteo/forecast/46.2,6.1''"
  by code_simp

subsection \<open>C3: a failed cycle and the published snapshot\<close>

text \<open>
  C3 as stated fails: the attributes are assigned one by one, so a cycle that fails
  while the current record is read keeps what it has assigned so far. With a current
  record that has a symbol code and no temperature, the cycle raises \<^verbatim>\<open>KeyError\<close>
  and the published condition has changed from nothing to \<^verbatim>\<open>sunny\<close>.
\<close>

theorem update_late_failure_counterexample:
  "fst (update lib0 (env0 token_document 200 (response_body [record_symbol_only] [])) entity1)
     = Some KeyError
   \<and> self_state entity1 = None
   \<and> self_state
        (fst (snd (update lib0 (env0 token_document 200 (response_body [record_symbol_only] [])) entity1)))
      = Some ''sunny''
   \<and> snapshot (fst (snd (update lib0 (env0 token_document 200 (response_body [record_symbol_only] [])) entity1)))
      \<noteq> snapshot entity1"
  by code_simp

text \<open>
  C3, amended: a cycle that fails in lines 212 to 235 of \<^verbatim>\<open>__update\<close> (token renewal,
  the HTTP request and its status, the choice of the current record, the reading of
  its symbol code) raises that exception, leaves every published field (condition,
  temperature, wind speed, wind bearing, state attributes, daily and hourly
  sequences) as it was, and unless it is a cancellation the loop goes on to its
  sleep with that entity.
\<close>

theorem update_early_failure_keeps_snapshot:
  assumes "fetch_current lib env e = (Inl x, e1, reqs)"
  shows "update lib env e = (Some x, e1, reqs)
         \<and> snapshot e1 = snapshot e
         \<and> (x \<noteq> CancelledError \<longrightarrow> update_loop_turn lib env e = (sleep_result env, e1, reqs))"
proof -
  have u: "update lib env e = (Some x, e1, reqs)"
    using assms by (simp add: update_def)
  have s: "snapshot e1 = snapshot e"
    using assms by (rule fetch_current_snapshot)
  have l: "x \<noteq> CancelledError \<longrightarrow> update_loop_turn lib env e = (sleep_result env, e1, reqs)"
    using u by (simp add: update_loop_turn_def)
  from u s l show ?thesis by blast
qed

text \<open>An instance: the forecast endpoint answers with status 500.\<close>

theorem update_early_failure_keeps_snapshot_witness:
  "fetch_current lib0 (env0 token_document 500 (response_body [record_ok] [])) entity1
     = (Inl ClientResponseError, entity1,
        [GET (URL_FORECASTS ''47.0274,8.3020'') [(''headers'', [(''Authorization'', ''Bearer tok'')])]])
   \<and> ClientResponseError \<noteq> CancelledError
   \<and> update_loop_turn lib0 (env0 token_document 500 (response_body [record_ok] [])) entity1
     = (None, entity1,
        [GET (URL_FORECASTS ''47.0274,8.3020'') [(''headers'', [(''Authorization'', ''Bearer tok'')])]])"
proof -
  have f: "fetch_current lib0 (env0 token_document 500 (response_body [record_ok] [])) entity1
     = (Inl ClientResponseError, entity1,
        [GET (URL_FORECASTS ''47.0274,8.3020'') [(''headers'', [(''Authorization'', ''Bearer tok'')])]])"
    by code_simp
  have s: "sleep_result (env0 token_document 500 (response_body [record_ok] [])) = None"
    by (simp add: env0_def)
  from update_early_failure_keeps_snapshot [OF f] f s show ?thesis by simp
qed

subsection \<open>C4: the expiry stored by a renewal\<close>

text \<open>
  C4 asks that a response without \<^verbatim>\<open>issued_at\<close> yields an expiry \<^verbatim>\<open>expires_in\<close>
  seconds in the future. The default \<^verbatim>\<open>issued_at\<close> is \<^verbatim>\<open>int(time.time())\<close>, in
  seconds, and \<^verbatim>\<open>_renew_api_key\<close> divides it by 1000 all the same: at time
  1622538000 a response with \<^verbatim>\<open>expires_in\<close> 3600 and no \<^verbatim>\<open>issued_at\<close> is accepted,
  and the stored expiry is 3600 + 1622538 = 1626138, which the clock has passed
  already, and not 1622541600.
\<close>

theorem renewal_without_issued_at_is_expired:
  "getitem token_document ''issued_at'' = Inl KeyError
   \<and> time_issued (env0 token_document 200 JNull) = 1622538000
   \<and> fst (get_api_key lib0 (env0 token_document 200 JNull) config0) = Inr (JStr ''tok'')
   \<and> dict_get (fst (snd (get_api_key lib0 (env0 token_document 200 JNull) config0))) ATTR_EXPIRES_AT
       = Inr (JInt 1626138)
   \<and> time_ge (time_time (env0 token_document 200 JNull)) (JInt 1626138) = Inr True"
  by code_simp

subsection \<open>C5: the wind bearing of a parsed entry\<close>

text \<open>
  C5 asks that the entry's wind bearing is the integer of \<^verbatim>\<open>DD_DEG\<close>.
  \<^verbatim>\<open>parse_forecast\<close> computes that integer and then stores the precipitation under
  \<^verbatim>\<open>wind_bearing\<close>: for a record with \<^verbatim>\<open>DD_DEG\<close> 180 and \<^verbatim>\<open>RRR_MM\<close> 1.5 the entry's
  wind bearing is 1.5, as its precipitation is.
\<close>

theorem parse_forecast_wind_bearing_is_precipitation:
  "int_field lib0 record_ok ''DD_DEG'' = Inr 180
   \<and> float_field lib0 record_ok ''RRR_MM'' = Inr (3 / 2)
   \<and> parse_forecast lib0 record_ok = Inr entry_ok
   \<and> getitem entry_ok ''wind_bearing'' = Inr (JFloat (3 / 2))
   \<and> getitem entry_ok ''precipitation'' = Inr (JFloat (3 / 2))"
  by code_simp

subsection \<open>C6: the daily forecast sequence\<close>

text \<open>
  C6 asks that three daily records of which one has a temperature that is no number
  yield exactly two entries in the published daily sequence. The record with the bad
  temperature is skipped, but the hourly entries are appended to the same list: with
  one hourly record that parses, the published daily sequence has three entries.
\<close>

theorem update_daily_list_gets_hourly_entry:
  "parse_forecast lib0 record_bad_temperature = Inl ValueError
   \<and> fst (update lib0 (env0 token_document 200
            (response_body [record_ok] [record_ok, record_bad_temperature, record_ok])) entity1) = None
   \<and> prop_forecast (fst (snd (update lib0 (env0 token_document 200
            (response_body [record_ok] [record_ok, record_bad_temperature, record_ok])) entity1)))
      = [entry_ok, entry_ok, entry_ok]"
  by code_simp

subsection \<open>C7: a token response with a missing key\<close>

text \<open>
  C7: when the token endpoint was called and answered with a dictionary that lacks
  \<^verbatim>\<open>access_token\<close> or \<^verbatim>\<open>expires_in\<close>, \<^verbatim>\<open>get_api_key\<close> raises the \<^verbatim>\<open>ValueError\<close> of
  \<^verbatim>\<open>_check_client_credentials_response\<close> (the failure the specification calls
  \<^verbatim>\<open>CredentialError\<close>) and the credential state is the one before the call.
\<close>

theorem get_api_key_missing_key_keeps_state:
  assumes "post_response env = Inr (JObj kvs)"
      and "map_of kvs ''access_token'' = None \<or> map_of kvs ''expires_in'' = None"
      and "get_api_key lib env data = (r, data', reqs)"
      and "reqs \<noteq> []"
  shows "r = Inl ValueError \<and> data' = data"
proof -
  have c: "check_client_credentials_response (time_issued env) (JObj kvs) = Inl ValueError"
    using assms(2) by (rule check_missing)
  have t: "fst (request_access_token lib env key secret) = Inl ValueError" for key secret
    using assms(1) c by (simp add: request_access_token_def Let_def)
  have rn: "fst (renew_api_key lib env data) = Some ValueError
            \<and> fst (snd (renew_api_key lib env data)) = data"
    if "snd (snd (renew_api_key lib env data)) \<noteq> []"
  proof (cases "dict_get data CONF_CONSUMER_KEY")
    case Inl
    with that show ?thesis by (simp add: renew_api_key_def)
  next
    case key: (Inr key)
    show ?thesis
    proof (cases "dict_get data CONF_CONSUMER_SECRET")
      case Inl
      with key that show ?thesis by (simp add: renew_api_key_def)
    next
      case secret: (Inr secret)
      obtain rs where "request_access_token lib env key secret = (Inl ValueError, rs)"
        using t [of key secret] by (cases "request_access_token lib env key secret") auto
      with key secret show ?thesis by (simp add: renew_api_key_def)
    qed
  qed
  from assms(3,4) show ?thesis
    using rn unfolding get_api_key_def
    by (auto split: sum.splits prod.splits option.splits if_splits)
qed

text \<open>An instance: a response with \<^verbatim>\<open>expires_in\<close> and no \<^verbatim>\<open>access_token\<close>.\<close>

theorem get_api_key_missing_key_keeps_state_witness:
  "post_response (env0 (JObj [(''expires_in'', JInt 3600)]) 200 JNull)
     = Inr (JObj [(''expires_in'', JInt 3600)])
   \<and> map_of [(''expires_in'', JInt 3600)] ''access_token'' = None
   \<and> get_api_key lib0 (env0 (JObj [(''expires_in'', JInt 3600)]) 200 JNull) config0
     = (Inl ValueError, config0,
        [POST URL_OAUTH [(''grant_type'', ''client_credentials'')]
           [(''Authorization'', ''Basic key:secret'')]])"
proof -
  let ?env = "env0 (JObj [(''expires_in'', JInt 3600)]) 200 JNull"
  let ?reqs = "[POST URL_OAUTH [(''grant_type'', ''client_credentials'')]
           [(''Authorization'', ''Basic key:secret'')]]"
  have p: "post_response ?env = Inr (JObj [(''expires_in'', JInt 3600)])"
    by (simp add: env0_def)
  have m: "map_of [(''expires_in'', JInt 3600)] ''access_token'' = None
           \<or> map_of [(''expires_in'', JInt 3600)] ''expires_in'' = None"
    by simp
  have rq: "snd (snd (get_api_key lib0 ?env config0)) = ?reqs"
    by code_simp
  have g: "get_api_key lib0 ?env config0
           = (fst (get_api_key lib0 ?env config0), fst (snd (get_api_key lib0 ?env config0)), ?reqs)"
    using rq by (metis prod.collapse)
  have n: "?reqs \<noteq> []" by simp
  from get_api_key_missing_key_keeps_state [OF p m g n] g p show ?thesis by simp
qed

subsection \<open>C8: when a renewal happens\<close>

text \<open>
  C8 as stated fails: \<^verbatim>\<open>get_api_key\<close> decides on the \<^verbatim>\<open>expires_at\<close> entry alone. A
  credential state with an expiry in the future and no access token has no cached
  token, yet no request is sent and the lookup of the token raises \<^verbatim>\<open>KeyError\<close>.
\<close>

theorem get_api_key_no_token_no_renewal_counterexample:
  "dict_get (config0 @ [(''expires_at'', JInt 1622541600)]) ATTR_API_KEY = Inl KeyError
   \<and> get_api_key lib0 (env0 token_document 200 JNull) (config0 @ [(''expires_at'', JInt 1622541600)])
      = (Inl KeyError, config0 @ [(''expires_at'', JInt 1622541600)], [])"
  by code_simp

text \<open>
  C8, amended: with the consumer key and secret in the credential state,
  \<^verbatim>\<open>get_api_key\<close> sends exactly one request, the POST to the token endpoint, if the
  state has no \<^verbatim>\<open>expires_at\<close> entry or the time is at or past it, and no request
  otherwise; with an expiry in the future and a cached token it sends nothing,
  returns the cached token and leaves the state as it was.
\<close>

theorem get_api_key_renews_iff_expiry_due:
  assumes "dict_get data CONF_CONSUMER_KEY = Inr key"
      and "dict_get data CONF_CONSUMER_SECRET = Inr secret"
      and "get_api_key lib env data = (r, data', reqs)"
  shows "reqs =
           (if (case map_of data ATTR_EXPIRES_AT of
                  None \<Rightarrow> True
                | Some expires_at \<Rightarrow> time_ge (time_time env) expires_at = Inr True)
            then [POST URL_OAUTH [(''grant_type'', ''client_credentials'')]
                    [(''Authorization'',
                      ''Basic '' @ b64encode lib (py_str lib key @ '':'' @ py_str lib secret))]]
            else [])
         \<and> (\<forall>expires_at token.
               map_of data ATTR_EXPIRES_AT = Some expires_at
               \<and> time_ge (time_time env) expires_at = Inr False
               \<and> map_of data ATTR_API_KEY = Some token
               \<longrightarrow> r = Inr token \<and> data' = data \<and> reqs = [])"
proof -
  note rq = renew_api_key_requests [OF assms(1,2), of lib env]
  have a: "reqs =
           (if (case map_of data ATTR_EXPIRES_AT of
                  None \<Rightarrow> True
                | Some expires_at \<Rightarrow> time_ge (time_time env) expires_at = Inr True)
            then [POST URL_OAUTH [(''grant_type'', ''client_credentials'')]
                    [(''Authorization'',
                      ''Basic '' @ b64encode lib (py_str lib key @ '':'' @ py_str lib secret))]]
            else [])"
    using assms(3) rq unfolding get_api_key_def
    by (auto split: option.splits sum.splits prod.splits if_splits)
  have b: "r = Inr token \<and> data' = data \<and> reqs = []"
    if "map_of data ATTR_EXPIRES_AT = Some expires_at"
       "time_ge (time_time env) expires_at = Inr False"
       "map_of data ATTR_API_KEY = Some token" for expires_at token
    using assms(3) that unfolding get_api_key_def by (auto simp: dict_get_def)
  from a b show ?thesis by blast
qed

text \<open>An instance: a cached token that expires an hour after the call.\<close>

theorem get_api_key_renews_iff_expiry_due_witness:
  "dict_get (self_api_data entity1) CONF_CONSUMER_KEY = Inr (JStr ''key'')
   \<and> dict_get (self_api_data entity1) CONF_CONSUMER_SECRET = Inr (JStr ''secret'')
   \<and> map_of (self_api_data entity1) ATTR_EXPIRES_AT = Some (JInt 1622541600)
   \<and> time_ge (time_time (env0 token_document 200 JNull)) (JInt 1622541600) = Inr False
   \<and> map_of (self_api_data entity1) ATTR_API_KEY = Some (JStr ''tok'')
   \<and> get_api_key lib0 (env0 token_document 200 JNull) (self_api_data entity1)
      = (Inr (JStr ''tok''), self_api_data entity1, [])"
proof -
  let ?env = "env0 token_document 200 JNull"
  let ?data = "self_api_data entity1"
  have k: "dict_get ?data CONF_CONSUMER_KEY = Inr (JStr ''key'')" by code_simp
  have s: "dict_get ?data CONF_CONSUMER_SECRET = Inr (JStr ''secret'')" by code_simp
  have e: "map_of ?data ATTR_EXPIRES_AT = Some (JInt 1622541600)" by code_simp
  have t: "time_ge (time_time ?env) (JInt 1622541600) = Inr False" by code_simp
  have a: "map_of ?data ATTR_API_KEY = Some (JStr ''tok'')" by code_simp
  obtain r data' reqs where g: "get_api_key lib0 ?env ?data = (r, data', reqs)"
    by (cases "get_api_key lib0 ?env ?data") auto
  from get_api_key_renews_iff_expiry_due [OF k s g] e t a
  have "r = Inr (JStr ''tok'') \<and> data' = ?data \<and> reqs = []" by blast
  with g k s e t a show ?thesis by simp
qed

subsection \<open>C9: degrees to cardinal directions\<close>

text \<open>
  C9 as stated fails in three ways. \<^verbatim>\<open>round\<close> sends an exact half to the even
  neighbour, so 11.25 degrees, half way between sector 0 and sector 1, is \<^verbatim>\<open>N\<close> and
  not the higher sector \<^verbatim>\<open>NNE\<close>. The sum \<^verbatim>\<open>d + 360\<close> is a float addition: the
  double next above 11.25 is \<^verbatim>\<open>NNE\<close>, and adding 360 to it gives 371.25, which is
  \<^verbatim>\<open>N\<close>. The remainder of a negative input is rounded as well: the double next
  below -11.25 reduces to 348.75 and is \<^verbatim>\<open>N\<close> although \<^verbatim>\<open>NNW\<close> is nearer, and a
  tiny negative input reduces to 360 itself.
\<close>

theorem deg_to_cardinal_counterexample:
  "deg_to_cardinal (45 / 4) = ''N''
   \<and> deg_to_cardinal (45 / 4) \<noteq> CARDINALS ! 1
   \<and> deg_to_cardinal (45 / 4 + 1 / 2 ^ 49) = ''NNE''
   \<and> deg_to_cardinal (fl (45 / 4 + 1 / 2 ^ 49 + 360)) = ''N''
   \<and> deg_to_cardinal (- (45 / 4 + 1 / 2 ^ 49)) = ''N''
   \<and> py_mod (- (1 / 2 ^ 70)) 360 = 360"
  by code_simp

text \<open>
  C9, amended: 0 is \<^verbatim>\<open>N\<close>, 180 is \<^verbatim>\<open>S\<close> and 22.5 is \<^verbatim>\<open>NNE\<close>. Every finite input
  is reduced modulo 360 in double arithmetic: a non-negative input to its exact
  remainder, a negative one to the rounded remainder, so that the reduced value lies
  between 0 and 360, both included. The quotient by 22.5 is rounded to a double, at
  most \<open>1 / 2 ^ 49\<close> away, and then to the nearest integer, an exact half going to
  the even one; this index lies between 0 and 16 and its sector is the nearest one
  to the reduced value up to that rounding. The label is the one at the index
  modulo 16. Where the sum \<^verbatim>\<open>d + 360\<close> is exact, it has the label of \<open>d\<close>.
\<close>

theorem deg_to_cardinal_double_arithmetic:
  "deg_to_cardinal 0 = ''N'' \<and> deg_to_cardinal 180 = ''S'' \<and> deg_to_cardinal (45 / 2) = ''NNE''
   \<and> py_mod d 360 =
       (if 0 \<le> d then d - 360 * of_int \<lfloor>d / 360\<rfloor> else fl (d - 360 * of_int \<lfloor>d / 360\<rfloor>))
   \<and> 0 \<le> py_mod d 360 \<and> py_mod d 360 \<le> 360
   \<and> cardinal_index d = py_round (fl (py_mod d 360 / (45 / 2)))
   \<and> \<bar>fl (py_mod d 360 / (45 / 2)) - py_mod d 360 / (45 / 2)\<bar> \<le> 1 / 2 ^ 49
   \<and> 0 \<le> cardinal_index d \<and> cardinal_index d \<le> 16
   \<and> \<bar>fl (py_mod d 360 / (45 / 2)) - of_int (cardinal_index d)\<bar> \<le> 1 / 2
   \<and> (\<bar>fl (py_mod d 360 / (45 / 2)) - of_int (cardinal_index d)\<bar> = 1 / 2
        \<longrightarrow> even (cardinal_index d))
   \<and> \<bar>py_mod d 360 - 45 / 2 * of_int (cardinal_index d)\<bar> \<le> 45 / 4 + 45 / 2 ^ 50
   \<and> deg_to_cardinal d = CARDINALS ! nat (cardinal_index d mod 16)
   \<and> (fl (d + 360) = d + 360 \<longrightarrow> deg_to_cardinal (fl (d + 360)) = deg_to_cardinal d)"
proof -
  let ?r = "py_mod d 360"
  let ?q = "?r / (45 / 2)"
  let ?x = "fl ?q"
  let ?i = "cardinal_index d"
  have vals: "deg_to_cardinal 0 = ''N''" "deg_to_cardinal 180 = ''S''"
    "deg_to_cardinal (45 / 2) = ''NNE''"
    by code_simp+
  have red: "?r = (if 0 \<le> d then d - 360 * of_int \<lfloor>d / 360\<rfloor>
                   else fl (d - 360 * of_int \<lfloor>d / 360\<rfloor>))"
    by (rule py_mod_360)
  have range: "0 \<le> ?r" "?r \<le> 360" using py_mod_range [of d] by simp_all
  have idx: "?i = py_round ?x" by (simp add: cardinal_index_def consts_simps)
  note quot = quotient_rounding [OF range]
  have err: "\<bar>?x - ?q\<bar> \<le> 1 / 2 ^ 49" using quot by simp
  have lo: "0 \<le> ?i" unfolding idx using quot by (simp add: py_round_nonneg)
  have "?x \<le> of_int 16" using quot by simp
  then have hi: "?i \<le> 16" unfolding idx by (rule py_round_le)
  have near: "\<bar>?x - of_int ?i\<bar> \<le> 1 / 2" unfolding idx by (rule py_round_near)
  have tie: "\<bar>?x - of_int ?i\<bar> = 1 / 2 \<longrightarrow> even ?i"
    unfolding idx using py_round_tie [of ?x] by blast
  define a where "a = ?q - ?x"
  define b where "b = ?x - of_int ?i"
  define c :: rat where "c = 1 / 2 ^ 49"
  have scale: "\<bar>45 / 2 * t\<bar> = 45 / 2 * \<bar>t\<bar>" for t :: rat
    by (simp add: abs_mult)
  have split: "?r - 45 / 2 * of_int ?i = 45 / 2 * (a + b)"
    by (simp add: a_def b_def algebra_simps)
  have a: "\<bar>a\<bar> \<le> c" using err by (simp add: a_def c_def abs_minus_commute)
  have b: "\<bar>b\<bar> \<le> 1 / 2" using near by (simp add: b_def)
  have "\<bar>a + b\<bar> \<le> \<bar>a\<bar> + \<bar>b\<bar>" by (rule abs_triangle_ineq)
  with a b have "\<bar>a + b\<bar> \<le> c + 1 / 2" by simp
  then have "45 / 2 * \<bar>a + b\<bar> \<le> 45 / 2 * (c + 1 / 2)"
    by (rule mult_left_mono) simp
  also have "\<dots> = 45 / 4 + 45 / 2 ^ 50" by (simp add: c_def)
  finally have dist: "\<bar>?r - 45 / 2 * of_int ?i\<bar> \<le> 45 / 4 + 45 / 2 ^ 50"
    unfolding split scale .
  have label: "deg_to_cardinal d = CARDINALS ! nat (?i mod 16)"
    by (simp add: deg_to_cardinal_def consts_simps)
  have period: "fl (d + 360) = d + 360 \<longrightarrow> deg_to_cardinal (fl (d + 360)) = deg_to_cardinal d"
  proof
    assume exact: "fl (d + 360) = d + 360"
    then have "py_mod (d + 360) 360 = py_mod d 360" by (rule py_mod_period)
    then have "deg_to_cardinal (d + 360) = deg_to_cardinal d"
      by (simp add: deg_to_cardinal_def cardinal_index_def consts_simps)
    with exact show "deg_to_cardinal (fl (d + 360)) = deg_to_cardinal d" by simp
  qed
  from vals red range idx err lo hi near tie dist label period show ?thesis by blast
qed

text \<open>
  An instance: the tie at 11.25 degrees goes to the even index 0 and 371.25 has
  the same label; the negative input -11.25 reduces to 348.75.
\<close>

theorem deg_to_cardinal_double_arithmetic_witness:
  "fl (45 / 4 + 360) = 45 / 4 + 360
   \<and> \<bar>fl (py_mod (45 / 4) 360 / (45 / 2)) - of_int (cardinal_index (45 / 4))\<bar> = 1 / 2
   \<and> even (cardinal_index (45 / 4))
   \<and> deg_to_cardinal (fl (45 / 4 + 360)) = ''N''
   \<and> \<not> 0 \<le> - (45 / 4 :: rat)
   \<and> py_mod (- (45 / 4)) 360 = fl (- (45 / 4) - 360 * of_int \<lfloor>- (45 / 4) / 360 :: rat\<rfloor>)
   \<and> py_mod (- (45 / 4)) 360 = 1395 / 4"
proof -
  have exact: "fl (45 / 4 + 360) = 45 / 4 + 360" by code_simp
  have tie: "\<bar>fl (py_mod (45 / 4) 360 / (45 / 2)) - of_int (cardinal_index (45 / 4))\<bar> = 1 / 2"
    by code_simp
  have n: "deg_to_cardinal (45 / 4) = ''N''" by code_simp
  have neg: "\<not> 0 \<le> - (45 / 4 :: rat)" by simp
  have v: "py_mod (- (45 / 4)) 360 = 1395 / 4" by code_simp
  note pos_inst = deg_to_cardinal_double_arithmetic [of "45 / 4"]
  note neg_inst = deg_to_cardinal_double_arithmetic [of "- (45 / 4)"]
  from tie pos_inst have e: "even (cardinal_index (45 / 4))" by blast
  from exact pos_inst have "deg_to_cardinal (fl (45 / 4 + 360)) = deg_to_cardinal (45 / 4)"
    by blast
  with n have p: "deg_to_cardinal (fl (45 / 4 + 360)) = ''N''" by simp
  from neg_inst have "py_mod (- (45 / 4)) 360 =
      (if 0 \<le> - (45 / 4 :: rat) then - (45 / 4) - 360 * of_int \<lfloor>- (45 / 4) / 360 :: rat\<rfloor>
       else fl (- (45 / 4) - 360 * of_int \<lfloor>- (45 / 4) / 360 :: rat\<rfloor>))"
    by blast
  with neg have m: "py_mod (- (45 / 4)) 360 = fl (- (45 / 4) - 360 * of_int \<lfloor>- (45 / 4) / 360 :: rat\<rfloor>)"
    by (simp only: if_False)
  from exact tie e p neg m v show ?thesis by blast
qed

subsection \<open>C10: the published wind speed\<close>

text \<open>
  C10: after a cycle without exception the published wind speed is the float of the
  current record's \<^verbatim>\<open>FX_KMH\<close>; the value of \<^verbatim>\<open>FF_KMH\<close> is assigned first and
  overwritten.
\<close>

theorem update_wind_speed_is_gust:
  assumes "update lib env e = (None, e', reqs)"
  shows "\<exists>data forecastnow symbol_id e1 fx.
           fetch_current lib env e = (Inr (data, forecastnow, symbol_id), e1, reqs)
           \<and> float_field lib forecastnow ''FX_KMH'' = Inr fx
           \<and> self_wind_speed e' = Some fx"
proof -
  obtain r e1 rs where f: "fetch_current lib env e = (r, e1, rs)"
    by (cases "fetch_current lib env e") auto
  with assms obtain data forecastnow symbol_id where r: "r = Inr (data, forecastnow, symbol_id)"
    by (cases r) (auto simp: update_def)
  obtain x e2 where s: "set_current lib forecastnow symbol_id e1 = (x, e2)"
    by (cases "set_current lib forecastnow symbol_id e1") auto
  with assms f r have x: "x = None"
    by (cases x) (auto simp: update_def)
  obtain y e3 where u: "update_forecasts lib data e2 = (y, e3)"
    by (cases "update_forecasts lib data e2") auto
  from assms f r s x u have eq: "e' = e3" "reqs = rs"
    by (auto simp: update_def)
  from set_current_wind_speed [OF s [unfolded x]]
  obtain fx where fx: "float_field lib forecastnow ''FX_KMH'' = Inr fx" "self_wind_speed e2 = Some fx"
    by blast
  from update_forecasts_wind_speed [OF u] fx eq have "self_wind_speed e' = Some fx" by simp
  with f r fx eq show ?thesis by blast
qed

text \<open>An instance: a record with \<^verbatim>\<open>FF_KMH\<close> 5 and \<^verbatim>\<open>FX_KMH\<close> 12 publishes 12.\<close>

theorem update_wind_speed_is_gust_witness:
  "update lib0 (env0 token_document 200 (response_body [record_ok] [])) entity1
     = (None, fst (snd (update lib0 (env0 token_document 200 (response_body [record_ok] [])) entity1)),
        [GET (URL_FORECASTS ''47.0274,8.3020'') [(''headers'', [(''Authorization'', ''Bearer tok'')])]])
   \<and> float_field lib0 record_ok ''FX_KMH'' = Inr 12
   \<and> float_field lib0 record_ok ''FF_KMH'' = Inr 5
   \<and> self_wind_speed (fst (snd (update lib0 (env0 token_document 200 (response_body [record_ok] [])) entity1)))
      = Some 12"
proof -
  let ?env = "env0 token_document 200 (response_body [record_ok] [])"
  let ?reqs = "[GET (URL_FORECASTS ''47.0274,8.3020'') [(''headers'', [(''Authorization'', ''Bearer tok'')])]]"
  have r: "fst (update lib0 ?env entity1) = None" by code_simp
  have q: "snd (snd (update lib0 ?env entity1)) = ?reqs" by code_simp
  have u: "update lib0 ?env entity1 = (None, fst (snd (update lib0 ?env entity1)), ?reqs)"
    using r q by (metis prod.collapse)
  have f: "fst (fetch_current lib0 ?env entity1) = Inr (response_body [record_ok] [], record_ok, 1)"
    by code_simp
  have fx: "float_field lib0 record_ok ''FX_KMH'' = Inr 12" by code_simp
  have ff: "float_field lib0 record_ok ''FF_KMH'' = Inr 5" by code_simp
  from update_wind_speed_is_gust [OF u] f fx
  have "self_wind_speed (fst (snd (update lib0 ?env entity1))) = Some 12" by auto
  with u fx ff show ?thesis by blast
qed

end
